theory Spec2Isabelle
  imports Main "HOL-Library.Word"
begin

section \<open>Account management of projectCatalog: the class \<open>UserManagment\<close>\<close>

text \<open>
  The class \<open>UserManagment\<close> works on a DynamoDB table \<open>Users\<close>, on a token store
  (\<open>Tokens\<close>), an object store for profile images (\<open>S3\<close>), a mail sender (\<open>Email\<close>) and
  the two article tables. Every method is embedded as a function from the store before the
  call to the outcome and the store after it. Whatever the surroundings decide (the clock,
  \<open>Math.random\<close>, \<open>uuidv4\<close>, bcrypt, the process configuration and which remote call fails)
  is read from a record \<open>env\<close>.
\<close>

subsection \<open>JavaScript values and objects\<close>

text \<open>
  The attribute values the code stores and reads: strings, numbers (unix seconds, so
  integers), booleans, arrays of strings and \<open>null\<close>. An object is a finite map from
  property names to values; a property that is absent reads as \<open>undefined\<close>, which is
  \<open>None\<close> here.
\<close>

datatype jsval = S string | N int | B bool | L "string list" | Null

type_synonym obj = "string \<Rightarrow> jsval option"

text \<open>Truthiness of a value, as \<open>if (v)\<close> and \<open>a || b\<close> test it.\<close>

fun truthy :: "jsval option \<Rightarrow> bool" where
  "truthy None = False"
| "truthy (Some Null) = False"
| "truthy (Some (B b)) = b"
| "truthy (Some (N n)) = (n \<noteq> 0)"
| "truthy (Some (S s)) = (s \<noteq> [])"
| "truthy (Some (L xs)) = True"

subsection \<open>Tokens, articles, mails, responses\<close>

text \<open>
  A token object as the methods build it:
  \<open>{ username, value, type, expiration, newEmail? }\<close>.
\<close>

record token =
  tk_username :: string
  tk_value :: string
  tk_type :: string
  tk_expiration :: int
  tk_newEmail :: "string option"

text \<open>The attributes of an article row that this class reads or writes.\<close>

record article =
  ID :: string
  Author :: string
  AuthorProfilePic :: string

datatype mail_kind =
  AccountVerification | EmailChangeVerification | PasswordReset | NewPassword

record mail =
  kind :: mail_kind
  recipient :: "jsval option"
  about :: string
  content :: string

text \<open>
  A signed JWT: the payload and the secret it was signed with. \<open>decodeJWT\<close> reads the
  payload back without checking the signature.
\<close>

datatype jwt = JWT obj string

text \<open>
  \<open>ApiResponse\<close>: \<open>{ status, response: { message?, accessToken?, refreshToken?,
  verificationToken?, user? } }\<close>.
\<close>

record ApiResponse =
  status :: nat
  message :: "string option"
  accessToken :: "jwt option"
  refreshToken :: "jwt option"
  verificationToken :: "jwt option"
  user :: "obj option"

definition resp :: "nat \<Rightarrow> string \<Rightarrow> ApiResponse" where
  "resp st msg = \<lparr>status = st, message = Some msg, accessToken = None,
     refreshToken = None, verificationToken = None, user = None\<rparr>"

text \<open>
  What a call does: it returns a response, or an exception leaves the method (a rejected
  promise). \<open>Unmodelled\<close> marks the runs that depend on JavaScript's conversion of a string
  to a number (a timestamp attribute that holds a string other than \<open>'null'\<close>, or an
  array), which this embedding does not cover.
\<close>

datatype outcome = Returns ApiResponse | Throws string | Unmodelled

subsection \<open>The store and the environment\<close>

text \<open>
  \<open>Users\<close> maps the key \<open>Username\<close> to the other attributes of the item; \<open>Tokens\<close> maps a
  token value to the token; \<open>Images\<close> maps an image id to the stored file with its width
  and height; \<open>Articles\<close> gives the rows of the table of a given name; \<open>Outbox\<close> collects
  the mails that were delivered.
\<close>

record store =
  Users :: "string \<Rightarrow> obj option"
  Tokens :: "string \<Rightarrow> token option"
  Images :: "string \<Rightarrow> (string \<times> nat \<times> nat) option"
  Articles :: "string \<Rightarrow> article list"
  Outbox :: "mail list"

record env =
  bcrypt_hash :: "string \<Rightarrow> string"
  bcrypt_compare :: "string \<Rightarrow> string \<Rightarrow> bool"
  clock :: "nat \<Rightarrow> int"
  random :: "nat \<Rightarrow> 8 word"
  uuidv4 :: string
  AWS_S3_LINK :: "string option"
  JWT_KEY :: "string option"
  JWT_REFRESH_KEY :: "string option"
  getItem_throws :: bool
  updateItem_throws :: "nat \<Rightarrow> bool"
  deleteItem_throws :: bool
  articleQuery_throws :: "string \<Rightarrow> bool"
  articleUpdate_throws :: "string \<Rightarrow> string \<Rightarrow> bool"
  s3_remove_ok :: bool
  s3_save_ok :: bool
  email_ok :: bool
  deleteUserTokens_ok :: bool
  removeAllArticles_error :: "ApiResponse option"

text \<open>
  \<open>bcrypt_hash\<close> is \<open>bcrypt.hash\<close> with the salt the call draws, \<open>bcrypt_compare\<close> is
  \<open>bcrypt.compare\<close> on two strings. \<open>clock e k\<close> is the k-th reading of the wall clock
  (unix seconds) within one call of a method, \<open>random e i\<close> the i-th byte
  \<open>Math.floor(Math.random() * 256)\<close>. \<open>updateItem_throws e k\<close> says that the k-th
  \<open>updateUser\<close> of the call finds the database failing.
\<close>

subsection \<open>Collaborators that are not part of this class\<close>

text \<open>
  Modelled from the spec: \<open>Helper.getUNIXTimestamp\<close> is missing from the sources; the spec
  has every timestamp in unix seconds. The k-th reading of the clock.
\<close>

definition getUNIXTimestamp :: "env \<Rightarrow> nat \<Rightarrow> int" where
  "getUNIXTimestamp e k = clock e k"

text \<open>
  Modelled from the spec: the class \<open>Tokens\<close> is missing from the sources. Spec 4.3:
  \<open>create\<close> persists a token and overwrites any prior entry with the same value.
\<close>

definition createToken :: "store \<Rightarrow> token \<Rightarrow> store" where
  "createToken s t = s\<lparr>Tokens := (Tokens s)(tk_value t \<mapsto> t)\<rparr>"

text \<open>Modelled from the spec: \<open>Tokens.getToken\<close> is missing; spec 4.3, \<open>get(value)\<close>.\<close>

definition getToken :: "store \<Rightarrow> string \<Rightarrow> token option" where
  "getToken s v = Tokens s v"

text \<open>Modelled from the spec: \<open>Tokens.deleteToken\<close> is missing; spec 4.3, \<open>delete(value)\<close>.\<close>

definition deleteToken :: "store \<Rightarrow> string \<Rightarrow> store" where
  "deleteToken s v = s\<lparr>Tokens := (Tokens s)(v := None)\<rparr>"

text \<open>
  Modelled from the spec: \<open>Tokens.deleteUserTokens\<close> is missing; spec 4.3,
  \<open>deleteAllForUser\<close> removes every token owned by the user and reports success or
  failure as a whole. A failing call is taken to leave the tokens as they are.
\<close>

definition deleteUserTokens :: "env \<Rightarrow> store \<Rightarrow> string \<Rightarrow> bool \<times> store" where
  "deleteUserTokens e s username =
     (if deleteUserTokens_ok e
      then (True, s\<lparr>Tokens := (\<lambda>v. case Tokens s v of
                                       None \<Rightarrow> None
                                     | Some t \<Rightarrow> if tk_username t = username then None else Some t)\<rparr>)
      else (False, s))"

text \<open>
  Modelled from the spec: the class \<open>S3\<close> is missing from the sources. Spec 6:
  \<open>remove(id) -> bool\<close>.
\<close>

definition removeImageFromS3 :: "env \<Rightarrow> store \<Rightarrow> string \<Rightarrow> bool \<times> store" where
  "removeImageFromS3 e s i =
     (if s3_remove_ok e then (True, s\<lparr>Images := (Images s)(i := None)\<rparr>) else (False, s))"

text \<open>
  Modelled from the spec: \<open>S3.saveImage\<close> is missing; spec 6,
  \<open>store(id, imageData, width, height) -> bool\<close>. The caller treats a thrown error and the
  answer \<open>false\<close> alike, so both are \<open>s3_save_ok e = False\<close>.
\<close>

definition saveImage :: "env \<Rightarrow> store \<Rightarrow> string \<Rightarrow> string \<Rightarrow> nat \<Rightarrow> nat \<Rightarrow> bool \<times> store" where
  "saveImage e s i file w h =
     (if s3_save_ok e then (True, s\<lparr>Images := (Images s)(i \<mapsto> (file, w, h))\<rparr>) else (False, s))"

text \<open>
  Modelled from the spec: the class \<open>Email\<close> is missing from the sources. Spec 6: each
  sender returns a delivery success indicator.
\<close>

definition sendEmail :: "env \<Rightarrow> store \<Rightarrow> mail \<Rightarrow> bool \<times> store" where
  "sendEmail e s m =
     (if email_ok e then (True, s\<lparr>Outbox := Outbox s @ [m]\<rparr>) else (False, s))"

text \<open>
  Modelled from the spec: \<open>Articles.removeAllArticlesByUser\<close> is missing from the sources.
  Spec 6: \<open>removeAllByUser(username) -> result\<close>; the caller goes on only when the status
  of the result is 200. A failing call is taken to leave the articles as they are.
\<close>

definition removeAllArticlesByUser :: "env \<Rightarrow> store \<Rightarrow> string \<Rightarrow> ApiResponse \<times> store" where
  "removeAllArticlesByUser e s username =
     (case removeAllArticles_error e of
        Some r \<Rightarrow> (r, s)
      | None \<Rightarrow> (resp 200 ''articles removed'',
                 s\<lparr>Articles := (\<lambda>tbl. filter (\<lambda>a. Author a \<noteq> username) (Articles s tbl))\<rparr>))"

subsection \<open>Small helpers of the class\<close>

definition profilePicCooldown :: int where
  "profilePicCooldown = 7 * 24 * 60 * 60"

definition hexDigit :: "nat \<Rightarrow> char" where
  "hexDigit n = ''0123456789abcdef'' ! n"

text \<open>\<open>byte.toString(16).padStart(2, '0')\<close>\<close>

definition byteHex :: "8 word \<Rightarrow> string" where
  "byteHex b = [hexDigit (unat b div 16), hexDigit (unat b mod 16)]"

definition randomBytesHex :: "env \<Rightarrow> nat \<Rightarrow> string" where
  "randomBytesHex e len = concat (map (\<lambda>i. byteHex (random e i)) [0..<len])"

definition checkCanPost :: "obj \<Rightarrow> bool" where
  "checkCanPost usr =
     (if usr ''Admin'' = Some (S ''true'') then True
      else if usr ''CanPost'' = Some (S ''true'') then True
      else False)"

text \<open>
  \<open>jwt.sign(payload, secret, { expiresIn })\<close> adds \<open>iat\<close> and \<open>exp\<close> to a copy of the
  payload; \<open>iat\<close> is the clock reading of the moment.
\<close>

definition jwt_sign :: "obj \<Rightarrow> string \<Rightarrow> int \<Rightarrow> int \<Rightarrow> jwt" where
  "jwt_sign payload secret expiresIn iat =
     JWT (payload(''iat'' \<mapsto> N iat, ''exp'' \<mapsto> N (iat + expiresIn))) secret"

text \<open>\<open>process.env.X || 'default'\<close>\<close>

definition orDefault :: "string option \<Rightarrow> string" where
  "orDefault v = (case v of None \<Rightarrow> ''default'' | Some k \<Rightarrow> if k = [] then ''default'' else k)"

definition getAccessJWT :: "env \<Rightarrow> int \<Rightarrow> obj \<Rightarrow> jwt" where
  "getAccessJWT e iat usr = jwt_sign usr (orDefault (JWT_KEY e)) (30 * 60) iat"

definition getRefreshJWT :: "env \<Rightarrow> int \<Rightarrow> obj \<Rightarrow> jwt" where
  "getRefreshJWT e iat usr = jwt_sign usr (orDefault (JWT_REFRESH_KEY e)) (3 * 24 * 60 * 60) iat"

fun decodeJWT :: "jwt \<Rightarrow> obj" where
  "decodeJWT (JWT payload secret) = payload"

definition genPassHash :: "env \<Rightarrow> string \<Rightarrow> string" where
  "genPassHash e password = bcrypt_hash e password"

text \<open>
  \<open>bcrypt.compare\<close> rejects with "Illegal arguments" when the stored hash is not a
  string.
\<close>

definition compareHash :: "env \<Rightarrow> string \<Rightarrow> jsval option \<Rightarrow> string + bool" where
  "compareHash e password h =
     (case h of
        Some (S hs) \<Rightarrow> Inr (bcrypt_compare e password hs)
      | _ \<Rightarrow> Inl ''Illegal arguments'')"

text \<open>
  \<open>timestamp != 'null' && currentTime - timestamp < this.profilePicCooldown\<close> gives
  \<open>false\<close>, anything else \<open>true\<close>. The current time is the reading the method takes
  itself. \<open>undefined\<close> makes the difference \<open>NaN\<close>, \<open>null\<close> counts as 0 and a boolean as 0
  or 1; \<open>None\<close> is returned where a string has to be converted to a number.
\<close>

definition checkProfilePictureCooldown :: "int \<Rightarrow> jsval option \<Rightarrow> bool option" where
  "checkProfilePictureCooldown currentTime timestamp =
     (case timestamp of
        None \<Rightarrow> Some True
      | Some (S str) \<Rightarrow> if str = ''null'' then Some True else None
      | Some (N t) \<Rightarrow> Some (\<not> (currentTime - t < profilePicCooldown))
      | Some (B b) \<Rightarrow> Some (\<not> (currentTime - (if b then 1 else 0) < profilePicCooldown))
      | Some (L xs) \<Rightarrow> None
      | Some Null \<Rightarrow> Some (\<not> (currentTime - 0 < profilePicCooldown)))"

text \<open>
  \<open>prev + window > currentTime\<close> on an attribute \<open>prev\<close>: \<open>undefined\<close> gives \<open>NaN\<close> and
  so \<open>false\<close>; on a string or an array \<open>+\<close> concatenates and \<open>None\<close> is returned.
\<close>

definition stillCooling :: "jsval option \<Rightarrow> int \<Rightarrow> int \<Rightarrow> bool option" where
  "stillCooling prev window currentTime =
     (case prev of
        None \<Rightarrow> Some False
      | Some (N t) \<Rightarrow> Some (t + window > currentTime)
      | Some (B b) \<Rightarrow> Some ((if b then 1 else 0) + window > currentTime)
      | Some Null \<Rightarrow> Some (0 + window > currentTime)
      | Some (S str) \<Rightarrow> None
      | Some (L xs) \<Rightarrow> None)"

subsection \<open>The two regular expressions on the profile picture link\<close>

definition stripSuffix :: "string \<Rightarrow> string \<Rightarrow> string option" where
  "stripSuffix suf str =
     (if length suf \<le> length str \<and> drop (length str - length suf) str = suf
      then Some (take (length str - length suf) str) else None)"

definition isHexDash :: "char \<Rightarrow> bool" where
  "isHexDash c = (c \<in> set ''abcdef0123456789-'')"

fun firstSome :: "'a option list \<Rightarrow> 'a option" where
  "firstSome [] = None"
| "firstSome (None # xs) = firstSome xs"
| "firstSome (Some x # xs) = Some x"

text \<open>
  Group 1 of \<open>link.match(/images\/([a-f0-9-]+)\.(?:png|jpg|jpeg|gif)$/)\<close>: the link ends
  with \<open>images/\<close>, a non-empty run of the characters \<open>a-f0-9-\<close>, a dot and one of the four
  extensions. The character before the run is \<open>/\<close>, so the run is the longest one that
  ends at the dot.
\<close>

definition oldImageId :: "string \<Rightarrow> string option" where
  "oldImageId link =
     (case firstSome (map (\<lambda>ext. stripSuffix (''.'' @ ext) link) [''png'', ''jpg'', ''jpeg'', ''gif'']) of
        None \<Rightarrow> None
      | Some body \<Rightarrow>
          (let r = rev body; run = takeWhile isHexDash r; front = dropWhile isHexDash r
           in if run \<noteq> [] \<and> take 7 front = rev ''images/'' then Some (rev run) else None))"

text \<open>
  \<open>[^\/]+\.\<close> from a given position: the run of characters up to the next slash, cut at
  its last dot, which must not be its first character.
\<close>

definition captureAt :: "string \<Rightarrow> string option" where
  "captureAt rest =
     (let run = takeWhile (\<lambda>c. c \<noteq> CHR ''/'') rest;
          dots = filter (\<lambda>i. run ! i = CHR ''.'') [1..<length run]
      in if dots = [] then None else Some (take (last dots) run))"

text \<open>
  Group 1 of \<open>link.match(/images\/([^\/]+)\./)\<close>: the leftmost position where
  \<open>images/\<close> starts a match; \<open>None\<close> when \<open>match\<close> returns \<open>null\<close>.
\<close>

fun profilePicId :: "string \<Rightarrow> string option" where
  "profilePicId [] = None"
| "profilePicId (c # cs) =
     (if take 7 (c # cs) = ''images/''
      then (case captureAt (drop 7 (c # cs)) of
              Some i \<Rightarrow> Some i
            | None \<Rightarrow> profilePicId cs)
      else profilePicId cs)"

subsection \<open>Reading and writing the table \<open>Users\<close>\<close>

text \<open>
  \<open>getUser\<close>: the unmarshalled item, or \<open>null\<close> when there is none or the database
  throws. The item carries its key as the attribute \<open>Username\<close>, so \<open>user.Username\<close> of
  an object that \<open>getUser(username)\<close> returned is \<open>username\<close>; the methods below pass it
  on as such.
\<close>

definition getUser :: "env \<Rightarrow> store \<Rightarrow> string \<Rightarrow> obj option" where
  "getUser e s username =
     (if getItem_throws e then None
      else (case Users s username of
              None \<Rightarrow> None
            | Some item \<Rightarrow> Some (item(''Username'' \<mapsto> S username))))"

definition allowedFields :: "string list" where
  "allowedFields = [''Email'', ''Password'', ''ProfilePic'', ''ProfilePicChange'', ''CanPost'',
     ''Admin'', ''Liked'', ''Verified'', ''LastPasswordChange'', ''LastEmailChange'']"

text \<open>
  \<open>updateUser\<close>: \<open>fieldValue\<close> is \<open>None\<close> for \<open>undefined\<close>, for which the method knows
  no DynamoDB type. \<open>UpdateItem\<close> has no condition: on a key that has no item it creates
  one and returns no old attributes, which the method reports as 404. The first argument
  says that the database throws.
\<close>

definition updateUser ::
  "bool \<Rightarrow> store \<Rightarrow> string \<Rightarrow> string \<Rightarrow> jsval option \<Rightarrow> ApiResponse \<times> store" where
  "updateUser throws s username fieldName fieldValue =
     (if fieldName \<notin> set allowedFields then (resp 400 ''Disallowed field'', s)
      else (case fieldValue of
              None \<Rightarrow> (resp 400 ''Unsupported data type'', s)
            | Some dynamoValue \<Rightarrow>
                if throws then (resp 500 ''Internal server error'', s)
                else (case Users s username of
                        None \<Rightarrow> (resp 404 ''User not found'',
                                  s\<lparr>Users := (Users s)(username \<mapsto> [fieldName \<mapsto> dynamoValue])\<rparr>)
                      | Some item \<Rightarrow> (resp 200 ''Item updated successfully'',
                                  s\<lparr>Users := (Users s)(username \<mapsto> item(fieldName \<mapsto> dynamoValue))\<rparr>))))"

definition deleteUser :: "env \<Rightarrow> store \<Rightarrow> string \<Rightarrow> ApiResponse \<times> store" where
  "deleteUser e s username =
     (if deleteItem_throws e then (resp 500 ''server error'', s)
      else (case Users s username of
              None \<Rightarrow> (resp 404 ''account not found'', s)
            | Some item \<Rightarrow> (resp 200 ''account deleted succesfuly'',
                            s\<lparr>Users := (Users s)(username := None)\<rparr>)))"

subsection \<open>\<open>verifyUser\<close>\<close>

text \<open>The method has no \<open>try\<close>: a rejection of \<open>bcrypt.compare\<close> leaves it.\<close>

definition verifyUser :: "env \<Rightarrow> store \<Rightarrow> string \<Rightarrow> string \<Rightarrow> outcome \<times> store" where
  "verifyUser e s username password =
     (case getUser e s username of
        None \<Rightarrow> (Returns (resp 401 ''invalid login credentials''), s)
      | Some usr \<Rightarrow>
          (case compareHash e password (usr ''Password'') of
             Inl err \<Rightarrow> (Throws err, s)
           | Inr verified \<Rightarrow>
               if \<not> verified then (Returns (resp 401 ''invalid login credentials''), s)
               else
                 (let usr1 = usr(''Password'' := None, ''Liked'' := None,
                                 ''VerificationCode'' := None);
                      tok = getAccessJWT e (clock e 0) usr1;
                      refresh = getRefreshJWT e (clock e 1) usr1
                  in (Returns \<lparr>status = 200, message = None, accessToken = Some tok,
                                refreshToken = Some refresh, verificationToken = None,
                                user = Some (decodeJWT tok)\<rparr>, s))))"

subsection \<open>\<open>changeProfilePic\<close>\<close>

text \<open>
  The local function \<open>queryArticles\<close>: the rows of a table whose author is the user;
  \<open>None\<close> when the query throws.
\<close>

definition queryArticles :: "env \<Rightarrow> store \<Rightarrow> string \<Rightarrow> string \<Rightarrow> article list option" where
  "queryArticles e s tableName username =
     (if articleQuery_throws e tableName then None
      else Some (filter (\<lambda>a. Author a = username) (Articles s tableName)))"

text \<open>
  The local function \<open>updateArticles\<close>: one \<open>UpdateItem\<close> per row whose \<open>ID\<close> is
  truthy (not the empty string), all started at once (\<open>Promise.all\<close>), so the ones that
  do not throw take effect even when another one throws. The boolean says that none threw.
\<close>

definition updateArticles ::
  "env \<Rightarrow> store \<Rightarrow> string \<Rightarrow> article list \<Rightarrow> string \<Rightarrow> bool \<times> store" where
  "updateArticles e s tableName items newLink =
     (let ids = filter (\<lambda>i. i \<noteq> []) (map ID items);
          failed = filter (\<lambda>i. articleUpdate_throws e tableName i) ids;
          written = filter (\<lambda>i. \<not> articleUpdate_throws e tableName i) ids
      in (failed = [],
          s\<lparr>Articles := (Articles s)(tableName :=
               map (\<lambda>a. if ID a \<in> set written then a\<lparr>AuthorProfilePic := newLink\<rparr> else a)
                   (Articles s tableName))\<rparr>))"

text \<open>
  The block that \<open>if (user.Admin || user.CanPost)\<close> guards: both queries are awaited
  together, then both updates. The boolean says that nothing threw; when a query throws,
  no update has been started.
\<close>

definition repointArticles :: "env \<Rightarrow> store \<Rightarrow> string \<Rightarrow> string \<Rightarrow> bool \<times> store" where
  "repointArticles e s username newLink =
     (case (queryArticles e s ''ArticlesUnpublished'' username,
            queryArticles e s ''ArticlesPublished'' username) of
        (Some privateArticles, Some publicArticles) \<Rightarrow>
          (case updateArticles e s ''ArticlesUnpublished'' privateArticles newLink of
             (ok1, s1) \<Rightarrow>
               (case updateArticles e s1 ''ArticlesPublished'' publicArticles newLink of
                  (ok2, s2) \<Rightarrow> (ok1 \<and> ok2, s2)))
      | _ \<Rightarrow> (False, s))"

text \<open>\<open>`${process.env.AWS_S3_LINK}/images/${imageId}.png`\<close>\<close>

definition newPicLink :: "env \<Rightarrow> string \<Rightarrow> string" where
  "newPicLink e imageId =
     (case AWS_S3_LINK e of None \<Rightarrow> ''undefined'' | Some l \<Rightarrow> l) @ ''/images/'' @ imageId @ ''.png''"

text \<open>
  Clock readings: 0 is \<open>timestamp\<close>, 1 the one \<open>checkProfilePictureCooldown\<close> takes, 2 the
  \<open>iat\<close> of the token. The method has no \<open>try\<close> around the calls on the article tables and
  around \<open>match\<close>: a link that is not a string, a failing query and a failing article
  update leave the method as exceptions.
\<close>

definition changeProfilePic :: "env \<Rightarrow> store \<Rightarrow> string \<Rightarrow> string \<Rightarrow> outcome \<times> store" where
  "changeProfilePic e s username file =
     (case getUser e s username of
        None \<Rightarrow> (Returns (resp 404 ''user not found''), s)
      | Some usr \<Rightarrow>
          (let timestamp = getUNIXTimestamp e 0 in
           case checkProfilePictureCooldown (getUNIXTimestamp e 1) (usr ''ProfilePicChange'') of
             None \<Rightarrow> (Unmodelled, s)
           | Some False \<Rightarrow>
               (Returns (resp 403 ''the user profile picture was changed in the last week''), s)
           | Some True \<Rightarrow>
               (case updateUser (updateItem_throws e 0) s username ''ProfilePicChange''
                       (Some (N timestamp)) of
                  (userEditRes, s1) \<Rightarrow>
                    if status userEditRes \<noteq> 200 then (Returns userEditRes, s1)
                    else
                      (let usr1 = usr(''ProfilePicChange'' \<mapsto> N timestamp) in
                       case usr1 ''ProfilePic'' of
                         Some (S link) \<Rightarrow>
                           (let s2 = (case oldImageId link of
                                        Some i \<Rightarrow> snd (removeImageFromS3 e s1 i)
                                      | None \<Rightarrow> s1);
                                imageId = uuidv4 e;
                                usr2 = usr1(''ProfilePic'' \<mapsto> S (newPicLink e imageId))
                            in case saveImage e s2 imageId file 350 350 of
                                 (False, s3) \<Rightarrow> (Returns (resp 500 ''server error''), s3)
                               | (True, s3) \<Rightarrow>
                                   (case (if truthy (usr2 ''Admin'') \<or> truthy (usr2 ''CanPost'')
                                          then repointArticles e s3 username (newPicLink e imageId)
                                          else (True, s3)) of
                                      (False, s5) \<Rightarrow> (Throws ''DynamoDB'', s5)
                                    | (True, s5) \<Rightarrow>
                                        (case updateUser (updateItem_throws e 1) s5 username
                                                ''ProfilePic'' (usr2 ''ProfilePic'') of
                                           (result, s6) \<Rightarrow>
                                             (let usr3 = usr2(''Password'' := None, ''Liked'' := None,
                                                              ''VerificationCode'' := None)
                                              in (Returns (result\<lparr>verificationToken :=
                                                              Some (getAccessJWT e (clock e 2) usr3),
                                                            user := Some usr3\<rparr>), s6)))))
                       | _ \<Rightarrow> (Throws ''TypeError'', s1)))))"

subsection \<open>\<open>verifyEmail\<close> and \<open>verifyEmailChange\<close>\<close>

text \<open>
  \<open>verifyEmail\<close>: the \<open>Error\<close> thrown after a failed update is caught by the method's
  own \<open>catch\<close> and becomes the response 500.
\<close>

definition verifyEmail :: "env \<Rightarrow> store \<Rightarrow> string \<Rightarrow> outcome \<times> store" where
  "verifyEmail e s verificationCode =
     (case getToken s verificationCode of
        None \<Rightarrow> (Returns (resp 404 ''invalid or expired verification code''), s)
      | Some tok \<Rightarrow>
          if tk_type tok = ''email_verification'' then
            (let username = tk_username tok in
             case getUser e s username of
               None \<Rightarrow> (Returns (resp 404 ''user not found''), s)
             | Some usr \<Rightarrow>
                 if usr ''Verified'' = Some (S ''false'') then
                   (case updateUser (updateItem_throws e 0) s username ''Verified''
                           (Some (S ''true'')) of
                      (updateRes, s1) \<Rightarrow>
                        if status updateRes = 200
                        then (Returns (resp 200 ''email verified''), deleteToken s1 verificationCode)
                        else (Returns (resp 500 ''server error''), s1))
                 else (Returns (resp 410 ''account already verified''), s))
          else (Returns (resp 404 ''invalid or expired verification code''), s))"

text \<open>
  Clock reading 0 is \<open>Math.floor(Date.now() / 1000)\<close>. The three disjuncts of the first
  test are tried in turn and share one response.
\<close>

definition verifyEmailChange :: "env \<Rightarrow> store \<Rightarrow> string \<Rightarrow> outcome \<times> store" where
  "verifyEmailChange e s code =
     (case getToken s code of
        None \<Rightarrow> (Returns (resp 410 ''Verification token is invalid or has expired.''), s)
      | Some storedToken \<Rightarrow>
          if tk_type storedToken \<noteq> ''email_change''
          then (Returns (resp 410 ''Verification token is invalid or has expired.''), s)
          else if tk_expiration storedToken < clock e 0
          then (Returns (resp 410 ''Verification token is invalid or has expired.''), s)
          else
            (let username = tk_username storedToken;
                 newEmail = tk_newEmail storedToken
             in case getUser e s username of
                  None \<Rightarrow> (Returns (resp 404 ''User not found.''), s)
                | Some usr \<Rightarrow>
                    (case updateUser (updateItem_throws e 0) s username ''Email''
                            (map_option S newEmail) of
                       (updateResponse, s1) \<Rightarrow>
                         if status updateResponse \<noteq> 200 then (Returns updateResponse, s1)
                         else (Returns (resp 200 ''Email address successfully updated.''),
                               deleteToken s1 code))))"

subsection \<open>\<open>requestEmailChange\<close>\<close>

text \<open>
  Clock readings: 0 is \<open>currentTime\<close>, 1 the \<open>Date.now()\<close> of the expiration, 2 the \<open>iat\<close>
  of the token. A rejection of \<open>bcrypt.compare\<close> is caught and becomes the response 500.
  The results of sending the mail and of \<open>updateUser\<close> are not looked at.
\<close>

definition requestEmailChange ::
  "env \<Rightarrow> store \<Rightarrow> string \<Rightarrow> string \<Rightarrow> string \<Rightarrow> outcome \<times> store" where
  "requestEmailChange e s username password newEmail =
     (let currentTime = getUNIXTimestamp e 0 in
      case getUser e s username of
        None \<Rightarrow> (Returns (resp 404 ''User not found.''), s)
      | Some usr \<Rightarrow>
          (case stillCooling (usr ''LastEmailChange'') (3 * 60 * 60) currentTime of
             None \<Rightarrow> (Unmodelled, s)
           | Some True \<Rightarrow>
               (Returns (resp 429
                  ''you have requested an email change recently. Please try again later.''), s)
           | Some False \<Rightarrow>
               (case compareHash e password (usr ''Password'') of
                  Inl err \<Rightarrow> (Returns (resp 500 ''Server error. Please try again later.''), s)
                | Inr isPasswordValid \<Rightarrow>
                    if \<not> isPasswordValid then (Returns (resp 401 ''Invalid password.''), s)
                    else
                      (let verificationTokenValue = randomBytesHex e 24;
                           tok = \<lparr>tk_username = username, tk_value = verificationTokenValue,
                                  tk_type = ''email_change'',
                                  tk_expiration = clock e 1 + 6 * 3600,
                                  tk_newEmail = Some newEmail\<rparr>;
                           s1 = createToken s tok;
                           s2 = snd (sendEmail e s1
                                  \<lparr>kind = EmailChangeVerification, recipient = Some (S newEmail),
                                   about = username, content = verificationTokenValue\<rparr>);
                           s3 = snd (updateUser (updateItem_throws e 0) s2 username
                                  ''LastEmailChange'' (Some (N currentTime)));
                           usr1 = usr(''LastPasswordChange'' \<mapsto> N currentTime);
                           verificationToken = getAccessJWT e (clock e 2) usr1
                       in (Returns \<lparr>status = 200,
                                     message = Some ''Verification email sent to new email address.'',
                                     accessToken = Some verificationToken, refreshToken = None,
                                     verificationToken = None,
                                     user = Some (decodeJWT verificationToken)\<rparr>, s3)))))"

subsection \<open>\<open>resetPassword\<close>\<close>

text \<open>
  Clock reading 0 is \<open>currentTimestamp\<close>. The \<open>Error\<close> thrown after a failed update is
  caught by the method's own \<open>catch\<close> and becomes the response 500.
\<close>

definition resetPassword :: "env \<Rightarrow> store \<Rightarrow> string \<Rightarrow> outcome \<times> store" where
  "resetPassword e s verificationCode =
     (case getToken s verificationCode of
        None \<Rightarrow> (Returns (resp 404 ''Invalid or expired verification code.''), s)
      | Some tok \<Rightarrow>
          if tk_type tok = ''password_reset'' then
            (let currentTimestamp = getUNIXTimestamp e 0 in
             if tk_expiration tok < currentTimestamp
             then (Returns (resp 410
                     ''Verification code has expired. Please request a new password reset.''),
                   deleteToken s verificationCode)
             else
               (let username = tk_username tok in
                case getUser e s username of
                  None \<Rightarrow> (Returns (resp 404 ''User not found.''), s)
                | Some usr \<Rightarrow>
                    (let newPassword = username @ randomBytesHex e 8;
                         hashedPassword = genPassHash e newPassword
                     in case updateUser (updateItem_throws e 0) s username ''Password''
                               (Some (S hashedPassword)) of
                          (updateRes, s1) \<Rightarrow>
                            if status updateRes = 200 then
                              (let s2 = deleteToken s1 verificationCode;
                                   s3 = snd (sendEmail e s2
                                          \<lparr>kind = NewPassword, recipient = usr ''Email'',
                                           about = username, content = newPassword\<rparr>)
                               in (Returns (resp 200
                                     ''Password reset successful. Please check your email for the new password.''),
                                   s3))
                            else (Returns (resp 500 ''Server error. Please try again later.''), s1))))
          else (Returns (resp 404 ''Invalid or expired verification code.''), s))"

subsection \<open>\<open>deleteUserAccount\<close>\<close>

text \<open>
  Everything runs inside one \<open>try\<close>: a rejection of \<open>bcrypt.compare\<close>, a link that is not
  a string and a link on which \<open>match\<close> returns \<open>null\<close> end in the response 500 of the
  \<open>catch\<close>.
\<close>

definition deleteUserAccount :: "env \<Rightarrow> store \<Rightarrow> string \<Rightarrow> string \<Rightarrow> outcome \<times> store" where
  "deleteUserAccount e s username password =
     (case getUser e s username of
        None \<Rightarrow> (Returns (resp 404 ''user not found.''), s)
      | Some usr \<Rightarrow>
          (case compareHash e password (usr ''Password'') of
             Inl err \<Rightarrow> (Returns (resp 500 ''Server error while deleting user account.''), s)
           | Inr verified \<Rightarrow>
               if \<not> verified then (Returns (resp 403 ''invalid password.''), s)
               else
                 (case (case usr ''ProfilePic'' of
                          Some (S link) \<Rightarrow> profilePicId link
                        | _ \<Rightarrow> None) of
                    None \<Rightarrow> (Returns (resp 500 ''Server error while deleting user account.''), s)
                  | Some i \<Rightarrow>
                      (case (if i \<noteq> ''pfp'' then removeImageFromS3 e s i else (True, s)) of
                         (False, s1) \<Rightarrow> (Returns (resp 500 ''server error''), s1)
                       | (True, s1) \<Rightarrow>
                           (case deleteUserTokens e s1 username of
                              (False, s2) \<Rightarrow> (Returns (resp 500 ''server error''), s2)
                            | (True, s2) \<Rightarrow>
                                (case removeAllArticlesByUser e s2 username of
                                   (removeArticlesResponse, s3) \<Rightarrow>
                                     if status removeArticlesResponse \<noteq> 200
                                     then (Returns removeArticlesResponse, s3)
                                     else (case deleteUser e s3 username of
                                             (deleteUserResponse, s4) \<Rightarrow>
                                               (Returns deleteUserResponse, s4))))))))"

subsection \<open>An example world\<close>

text \<open>
  Two users on a clock that reads 1000000. \<open>alice\<close> is unverified, may not post, has
  the default picture and never changed it; \<open>bob\<close> is verified, has a picture of his own
  and changed it 100000 seconds ago. The stand-in for bcrypt prefixes a dollar sign.
\<close>

definition env0 :: env where
  "env0 = \<lparr>bcrypt_hash = (\<lambda>p. ''$'' @ p),
           bcrypt_compare = (\<lambda>p h. h = ''$'' @ p),
           clock = (\<lambda>k. 1000000),
           random = (\<lambda>i. 171),
           uuidv4 = ''1b9d6bcd'',
           AWS_S3_LINK = Some ''https://s3'',
           JWT_KEY = Some ''k1'',
           JWT_REFRESH_KEY = Some ''k2'',
           getItem_throws = False,
           updateItem_throws = (\<lambda>k. False),
           deleteItem_throws = False,
           articleQuery_throws = (\<lambda>tbl. False),
           articleUpdate_throws = (\<lambda>tbl i. False),
           s3_remove_ok = True,
           s3_save_ok = True,
           email_ok = True,
           deleteUserTokens_ok = True,
           removeAllArticles_error = None\<rparr>"

definition alice :: obj where
  "alice = [''Password'' \<mapsto> S ''$password1'', ''Email'' \<mapsto> S ''alice@x.com'',
            ''Admin'' \<mapsto> S ''false'', ''CanPost'' \<mapsto> S ''false'', ''Verified'' \<mapsto> S ''false'',
            ''LastPasswordChange'' \<mapsto> N 0, ''LastEmailChange'' \<mapsto> N 0, ''Liked'' \<mapsto> L [],
            ''ProfilePic'' \<mapsto> S ''https://s3/images/pfp.png'', ''ProfilePicChange'' \<mapsto> S ''null'',
            ''AccountCreated'' \<mapsto> N 0]"

definition bob :: obj where
  "bob = [''Password'' \<mapsto> S ''$hunter22'', ''Email'' \<mapsto> S ''bob@x.com'',
          ''Admin'' \<mapsto> S ''false'', ''CanPost'' \<mapsto> S ''true'', ''Verified'' \<mapsto> S ''true'',
          ''LastPasswordChange'' \<mapsto> N 0, ''LastEmailChange'' \<mapsto> N 0, ''Liked'' \<mapsto> L [''a1''],
          ''ProfilePic'' \<mapsto> S ''https://s3/images/0a1b.png'', ''ProfilePicChange'' \<mapsto> N 900000,
          ''AccountCreated'' \<mapsto> N 0]"

definition tokVerify :: token where
  "tokVerify = \<lparr>tk_username = ''alice'', tk_value = ''c1'', tk_type = ''email_verification'',
                 tk_expiration = 0, tk_newEmail = None\<rparr>"

definition tokResetOld :: token where
  "tokResetOld = \<lparr>tk_username = ''bob'', tk_value = ''c2'', tk_type = ''password_reset'',
                   tk_expiration = 999999, tk_newEmail = None\<rparr>"

definition tokChangeOld :: token where
  "tokChangeOld = \<lparr>tk_username = ''alice'', tk_value = ''c3'', tk_type = ''email_change'',
                    tk_expiration = 999999, tk_newEmail = Some ''al@y.org''\<rparr>"

definition tokReset :: token where
  "tokReset = \<lparr>tk_username = ''bob'', tk_value = ''c4'', tk_type = ''password_reset'',
                tk_expiration = 1020000, tk_newEmail = None\<rparr>"

definition tokChange :: token where
  "tokChange = \<lparr>tk_username = ''alice'', tk_value = ''c5'', tk_type = ''email_change'',
                 tk_expiration = 1020000, tk_newEmail = Some ''al@y.org''\<rparr>"

definition art1 :: article where
  "art1 = \<lparr>ID = ''a1'', Author = ''alice'', AuthorProfilePic = ''https://s3/images/pfp.png''\<rparr>"

definition art2 :: article where
  "art2 = \<lparr>ID = ''a2'', Author = ''bob'', AuthorProfilePic = ''https://s3/images/0a1b.png''\<rparr>"

definition art3 :: article where
  "art3 = \<lparr>ID = ''a3'', Author = ''bob'', AuthorProfilePic = ''https://s3/images/0a1b.png''\<rparr>"

definition store0 :: store where
  "store0 = \<lparr>Users = [''alice'' \<mapsto> alice, ''bob'' \<mapsto> bob],
             Tokens = [''c1'' \<mapsto> tokVerify, ''c2'' \<mapsto> tokResetOld, ''c3'' \<mapsto> tokChangeOld,
                       ''c4'' \<mapsto> tokReset, ''c5'' \<mapsto> tokChange],
             Images = [''0a1b'' \<mapsto> (''bob.png'', 350, 350)],
             Articles = (\<lambda>tbl. if tbl = ''ArticlesPublished'' then [art1, art2]
                               else if tbl = ''ArticlesUnpublished'' then [art3] else []),
             Outbox = []\<rparr>"

section \<open>Properties\<close>

subsection \<open>Auxiliary facts\<close>

lemma getUser_SomeD:
  "getUser e s username = Some usr \<Longrightarrow>
     \<not> getItem_throws e \<and>
     (\<exists>item. Users s username = Some item \<and> usr = item(''Username'' \<mapsto> S username))"
  by (auto simp: getUser_def split: if_splits option.splits)

lemma getUser_existing:
  "Users s username = Some item \<Longrightarrow> \<not> getItem_throws e \<Longrightarrow>
   getUser e s username = Some (item(''Username'' \<mapsto> S username))"
  by (simp add: getUser_def)

lemma updateUser_existing:
  "Users s username = Some item \<Longrightarrow> fieldName \<in> set allowedFields \<Longrightarrow>
   updateUser False s username fieldName (Some v) =
     (resp 200 ''Item updated successfully'',
      s\<lparr>Users := (Users s)(username \<mapsto> item(fieldName \<mapsto> v))\<rparr>)"
  by (simp add: updateUser_def)

lemma allowed:
  "''Email'' \<in> set allowedFields" "''Password'' \<in> set allowedFields"
  "''ProfilePic'' \<in> set allowedFields" "''ProfilePicChange'' \<in> set allowedFields"
  "''Verified'' \<in> set allowedFields" "''LastEmailChange'' \<in> set allowedFields"
  by (simp_all add: allowedFields_def)

lemma status_resp [simp]: "status (resp n m) = n"
  by (simp add: resp_def)

lemma length_randomBytesHex: "length (randomBytesHex e n) = 2 * n"
  by (induction n) (simp_all add: randomBytesHex_def byteHex_def)

lemma hexDigit_mem: "n < 16 \<Longrightarrow> hexDigit n \<in> set ''0123456789abcdef''"
  unfolding hexDigit_def by (rule nth_mem) simp

lemma set_byteHex: "set (byteHex b) \<subseteq> set ''0123456789abcdef''"
proof -
  have "unat b < 256" using unsigned_less [of b] by simp
  then have "unat b div 16 < 16" by simp
  moreover have "unat b mod 16 < 16" by simp
  ultimately have "hexDigit (unat b div 16) \<in> set ''0123456789abcdef''"
    and "hexDigit (unat b mod 16) \<in> set ''0123456789abcdef''"
    using hexDigit_mem by blast+
  then show ?thesis
    unfolding byteHex_def by auto
qed

lemma set_randomBytesHex: "set (randomBytesHex e n) \<subseteq> set ''0123456789abcdef''"
  using set_byteHex by (fastforce simp: randomBytesHex_def)

subsection \<open>Tokens of the wrong type\<close>

text \<open>
  C7: a stored token whose type is not the one the method expects is never applied.
  \<open>verifyEmail\<close> answers 404 to a token that is not an \<open>email_verification\<close> token,
  \<open>verifyEmailChange\<close> answers 410 to one that is not an \<open>email_change\<close> token, and
  \<open>resetPassword\<close> answers 404 to one that is not a \<open>password_reset\<close> token. In each
  case the store after the call is the store before it: no user is written and the token
  stays where it is.
\<close>

theorem wrong_type_token_rejected:
  "Tokens s code = Some tok \<Longrightarrow>
   (tk_type tok \<noteq> ''email_verification'' \<longrightarrow>
      verifyEmail e s code = (Returns (resp 404 ''invalid or expired verification code''), s)) \<and>
   (tk_type tok \<noteq> ''email_change'' \<longrightarrow>
      verifyEmailChange e s code =
        (Returns (resp 410 ''Verification token is invalid or has expired.''), s)) \<and>
   (tk_type tok \<noteq> ''password_reset'' \<longrightarrow>
      resetPassword e s code = (Returns (resp 404 ''Invalid or expired verification code.''), s))"
  by (simp add: verifyEmail_def verifyEmailChange_def resetPassword_def getToken_def)

text \<open>
  In the example world the password-reset token \<open>c4\<close> verifies no email and changes
  none, and the verification token \<open>c1\<close> resets no password.
\<close>

theorem wrong_type_token_rejected_witness:
  "Tokens store0 ''c4'' = Some tokReset \<and> tk_type tokReset \<noteq> ''email_verification'' \<and>
   tk_type tokReset \<noteq> ''email_change'' \<and>
   Tokens store0 ''c1'' = Some tokVerify \<and> tk_type tokVerify \<noteq> ''password_reset'' \<and>
   verifyEmail env0 store0 ''c4'' =
     (Returns (resp 404 ''invalid or expired verification code''), store0) \<and>
   verifyEmailChange env0 store0 ''c4'' =
     (Returns (resp 410 ''Verification token is invalid or has expired.''), store0) \<and>
   resetPassword env0 store0 ''c1'' =
     (Returns (resp 404 ''Invalid or expired verification code.''), store0)"
  using wrong_type_token_rejected [of store0 "''c4''" tokReset env0]
        wrong_type_token_rejected [of store0 "''c1''" tokVerify env0]
  by (simp add: store0_def tokReset_def tokVerify_def)

subsection \<open>\<open>verifyEmail\<close> and the expiration of a token\<close>

text \<open>
  C10: \<open>verifyEmail\<close> never reads the expiration of a token. For a stored token of type
  \<open>email_verification\<close> whose owner exists and is unverified, and a database that takes
  the write, the method sets \<open>Verified\<close> to \<open>'true'\<close> and deletes the token whatever the
  expiration \<open>x\<close> of the token is; the outcome and the store after the call do not depend
  on \<open>x\<close>, and the clock does not occur in them.
\<close>

theorem verifyEmail_ignores_expiration:
  assumes "Tokens s code = Some tok" and "tk_type tok = ''email_verification''"
    and "getUser e s (tk_username tok) = Some usr" and "usr ''Verified'' = Some (S ''false'')"
    and "\<not> updateItem_throws e 0"
  shows "\<exists>item. Users s (tk_username tok) = Some item \<and>
           (\<forall>x. verifyEmail e (s\<lparr>Tokens := (Tokens s)(code \<mapsto> tok\<lparr>tk_expiration := x\<rparr>)\<rparr>) code =
              (Returns (resp 200 ''email verified''),
               s\<lparr>Users := (Users s)(tk_username tok \<mapsto> item(''Verified'' \<mapsto> S ''true'')),
                 Tokens := (Tokens s)(code := None)\<rparr>))"
proof -
  from assms(3) obtain item where item: "Users s (tk_username tok) = Some item"
    and thr: "\<not> getItem_throws e" and usr: "usr = item(''Username'' \<mapsto> S (tk_username tok))"
    using getUser_SomeD by blast
  from assms(4) usr have unv: "(item(''Username'' \<mapsto> S (tk_username tok))) ''Verified'' = Some (S ''false'')"
    by simp
  have "verifyEmail e (s\<lparr>Tokens := (Tokens s)(code \<mapsto> tok\<lparr>tk_expiration := x\<rparr>)\<rparr>) code =
              (Returns (resp 200 ''email verified''),
               s\<lparr>Users := (Users s)(tk_username tok \<mapsto> item(''Verified'' \<mapsto> S ''true'')),
                 Tokens := (Tokens s)(code := None)\<rparr>)" for x
    using assms(2,5) item thr unv
    by (simp add: verifyEmail_def getToken_def getUser_def updateUser_def allowed deleteToken_def
          Let_def)
  with item show ?thesis by blast
qed

text \<open>
  In the example world the token \<open>c1\<close> has the expiration 0, which lies before the
  clock's 1000000, and verifies \<open>alice\<close>.
\<close>

theorem verifyEmail_ignores_expiration_witness:
  "Tokens store0 ''c1'' = Some tokVerify \<and> tk_type tokVerify = ''email_verification'' \<and>
   tk_expiration tokVerify < clock env0 0 \<and>
   getUser env0 store0 (tk_username tokVerify) = Some (alice(''Username'' \<mapsto> S ''alice'')) \<and>
   (alice(''Username'' \<mapsto> S ''alice'')) ''Verified'' = Some (S ''false'') \<and>
   verifyEmail env0 store0 ''c1'' =
     (Returns (resp 200 ''email verified''),
      store0\<lparr>Users := (Users store0)(''alice'' \<mapsto> alice(''Verified'' \<mapsto> S ''true'')),
             Tokens := (Tokens store0)(''c1'' := None)\<rparr>)"
proof -
  have h1: "Tokens store0 ''c1'' = Some tokVerify" by (simp add: store0_def)
  have h2: "tk_type tokVerify = ''email_verification''" by (simp add: tokVerify_def)
  have h3: "getUser env0 store0 (tk_username tokVerify) = Some (alice(''Username'' \<mapsto> S ''alice''))"
    by (simp add: getUser_def env0_def store0_def tokVerify_def)
  have h4: "(alice(''Username'' \<mapsto> S ''alice'')) ''Verified'' = Some (S ''false'')"
    by (simp add: alice_def)
  have h5: "\<not> updateItem_throws env0 0" by (simp add: env0_def)
  have h6: "tk_expiration tokVerify < clock env0 0" by (simp add: tokVerify_def env0_def)
  have same: "store0\<lparr>Tokens := (Tokens store0)(''c1'' \<mapsto> tokVerify\<lparr>tk_expiration := tk_expiration tokVerify\<rparr>)\<rparr> = store0"
    using h1 by (simp add: fun_upd_idem)
  have al: "Users store0 (tk_username tokVerify) = Some alice" by (simp add: store0_def tokVerify_def)
  from verifyEmail_ignores_expiration [OF h1 h2 h3 h4 h5] al
  have "\<forall>x. verifyEmail env0 (store0\<lparr>Tokens := (Tokens store0)(''c1'' \<mapsto> tokVerify\<lparr>tk_expiration := x\<rparr>)\<rparr>) ''c1'' =
              (Returns (resp 200 ''email verified''),
               store0\<lparr>Users := (Users store0)(tk_username tokVerify \<mapsto> alice(''Verified'' \<mapsto> S ''true'')),
                 Tokens := (Tokens store0)(''c1'' := None)\<rparr>)"
    by auto
  then have "verifyEmail env0 (store0\<lparr>Tokens := (Tokens store0)(''c1'' \<mapsto> tokVerify\<lparr>tk_expiration := tk_expiration tokVerify\<rparr>)\<rparr>) ''c1'' =
              (Returns (resp 200 ''email verified''),
               store0\<lparr>Users := (Users store0)(tk_username tokVerify \<mapsto> alice(''Verified'' \<mapsto> S ''true'')),
                 Tokens := (Tokens store0)(''c1'' := None)\<rparr>)"
    by blast
  with same have "verifyEmail env0 store0 ''c1'' =
     (Returns (resp 200 ''email verified''),
      store0\<lparr>Users := (Users store0)(''alice'' \<mapsto> alice(''Verified'' \<mapsto> S ''true'')),
             Tokens := (Tokens store0)(''c1'' := None)\<rparr>)"
    by (simp add: tokVerify_def)
  with h1 h2 h3 h4 h6 show ?thesis by blast
qed

subsection \<open>Expired tokens\<close>

text \<open>
  C1: what the two consuming methods do with a stored token whose expiration lies strictly
  before the current time. \<open>resetPassword\<close> answers 410 to an expired \<open>password_reset\<close>
  token, deletes it and leaves every user as it was. \<open>verifyEmailChange\<close> answers 410 to
  an expired \<open>email_change\<close> token and leaves every user as it was, but it returns the
  store it was given: the expired token is still in the token store after the call.
\<close>

theorem expired_token_handling:
  "Tokens s code = Some tok \<Longrightarrow> tk_expiration tok < clock e 0 \<Longrightarrow>
   (tk_type tok = ''password_reset'' \<longrightarrow>
      resetPassword e s code =
        (Returns (resp 410 ''Verification code has expired. Please request a new password reset.''),
         s\<lparr>Tokens := (Tokens s)(code := None)\<rparr>)) \<and>
   (tk_type tok = ''email_change'' \<longrightarrow>
      verifyEmailChange e s code =
        (Returns (resp 410 ''Verification token is invalid or has expired.''), s))"
  by (simp add: resetPassword_def verifyEmailChange_def getToken_def deleteToken_def
        getUNIXTimestamp_def)

text \<open>
  In the example world \<open>c2\<close> is an expired password-reset token and \<open>c3\<close> an expired
  email-change token; \<open>c3\<close> is still stored after \<open>verifyEmailChange\<close>.
\<close>

theorem expired_token_handling_witness:
  "Tokens store0 ''c2'' = Some tokResetOld \<and> tk_expiration tokResetOld < clock env0 0 \<and>
   tk_type tokResetOld = ''password_reset'' \<and>
   Tokens store0 ''c3'' = Some tokChangeOld \<and> tk_expiration tokChangeOld < clock env0 0 \<and>
   tk_type tokChangeOld = ''email_change'' \<and>
   resetPassword env0 store0 ''c2'' =
     (Returns (resp 410 ''Verification code has expired. Please request a new password reset.''),
      store0\<lparr>Tokens := (Tokens store0)(''c2'' := None)\<rparr>) \<and>
   verifyEmailChange env0 store0 ''c3'' =
     (Returns (resp 410 ''Verification token is invalid or has expired.''), store0) \<and>
   Tokens (snd (verifyEmailChange env0 store0 ''c3'')) ''c3'' = Some tokChangeOld"
  using expired_token_handling [of store0 "''c2''" tokResetOld env0]
        expired_token_handling [of store0 "''c3''" tokChangeOld env0]
  by (simp add: store0_def tokResetOld_def tokChangeOld_def env0_def)

subsection \<open>The password that \<open>resetPassword\<close> generates\<close>

text \<open>
  C3: given an unexpired \<open>password_reset\<close> token of an existing user and a database that
  takes the write, \<open>resetPassword\<close> returns 200, stores the hash of the new password,
  deletes the token, and does so whether or not the mail with the new password can be
  sent. The new password is the username followed by \<open>randomBytesHex(8)\<close>, which is
  16 hexadecimal characters (two for each of the 8 random bytes), not 8.
\<close>

theorem resetPassword_new_password:
  assumes "Tokens s code = Some tok" and "tk_type tok = ''password_reset''"
    and "\<not> tk_expiration tok < clock e 0"
    and "Users s (tk_username tok) = Some item" and "\<not> getItem_throws e"
    and "\<not> updateItem_throws e 0"
  shows "\<exists>s'. resetPassword e s code =
           (Returns (resp 200
              ''Password reset successful. Please check your email for the new password.''), s') \<and>
         Users s' = (Users s)(tk_username tok \<mapsto>
            item(''Password'' \<mapsto> S (genPassHash e (tk_username tok @ randomBytesHex e 8)))) \<and>
         Tokens s' = (Tokens s)(code := None) \<and>
         Outbox s' = (if email_ok e
                      then Outbox s @ [\<lparr>kind = NewPassword, recipient = item ''Email'',
                             about = tk_username tok,
                             content = tk_username tok @ randomBytesHex e 8\<rparr>]
                      else Outbox s) \<and>
         length (randomBytesHex e 8) = 16 \<and>
         set (randomBytesHex e 8) \<subseteq> set ''0123456789abcdef''"
proof -
  have "\<exists>s'. resetPassword e s code =
           (Returns (resp 200
              ''Password reset successful. Please check your email for the new password.''), s') \<and>
         Users s' = (Users s)(tk_username tok \<mapsto>
            item(''Password'' \<mapsto> S (genPassHash e (tk_username tok @ randomBytesHex e 8)))) \<and>
         Tokens s' = (Tokens s)(code := None) \<and>
         Outbox s' = (if email_ok e
                      then Outbox s @ [\<lparr>kind = NewPassword, recipient = item ''Email'',
                             about = tk_username tok,
                             content = tk_username tok @ randomBytesHex e 8\<rparr>]
                      else Outbox s)"
    using assms
    by (simp add: resetPassword_def getToken_def getUNIXTimestamp_def getUser_existing
         updateUser_existing allowed deleteToken_def sendEmail_def Let_def)
  moreover have "length (randomBytesHex e 8) = 16"
    by (simp add: length_randomBytesHex)
  ultimately show ?thesis
    using set_randomBytesHex [of e 8] by blast
qed

text \<open>
  In the example world with a mail sender that fails, the token \<open>c4\<close> gives \<open>bob\<close> the
  password \<open>bob\<close> followed by 16 hexadecimal characters.
\<close>

theorem resetPassword_new_password_witness:
  "Tokens store0 ''c4'' = Some tokReset \<and> tk_type tokReset = ''password_reset'' \<and>
   \<not> tk_expiration tokReset < clock (env0\<lparr>email_ok := False\<rparr>) 0 \<and>
   Users store0 (tk_username tokReset) = Some bob \<and>
   (\<exists>s'. resetPassword (env0\<lparr>email_ok := False\<rparr>) store0 ''c4'' =
      (Returns (resp 200
         ''Password reset successful. Please check your email for the new password.''), s') \<and>
      Users s' ''bob'' = Some (bob(''Password'' \<mapsto> S ''$bobabababababababab'')) \<and>
      Tokens s' ''c4'' = None \<and> Outbox s' = [])"
proof -
  let ?e = "env0\<lparr>email_ok := False\<rparr>"
  have h1: "Tokens store0 ''c4'' = Some tokReset" by (simp add: store0_def)
  have h2: "tk_type tokReset = ''password_reset''" by (simp add: tokReset_def)
  have h3: "\<not> tk_expiration tokReset < clock ?e 0" by (simp add: tokReset_def env0_def)
  have h4: "Users store0 (tk_username tokReset) = Some bob" by (simp add: store0_def tokReset_def)
  have h5: "\<not> getItem_throws ?e" by (simp add: env0_def)
  have h6: "\<not> updateItem_throws ?e 0" by (simp add: env0_def)
  have hex: "randomBytesHex ?e 8 = ''abababababababab''" by code_simp
  from resetPassword_new_password [OF h1 h2 h3 h4 h5 h6] obtain s' where
    r: "resetPassword ?e store0 ''c4'' =
      (Returns (resp 200
         ''Password reset successful. Please check your email for the new password.''), s')"
    and u: "Users s' = (Users store0)(tk_username tokReset \<mapsto>
            bob(''Password'' \<mapsto> S (genPassHash ?e (tk_username tokReset @ randomBytesHex ?e 8))))"
    and t: "Tokens s' = (Tokens store0)(''c4'' := None)"
    and ob: "Outbox s' = (if email_ok ?e
                      then Outbox store0 @ [\<lparr>kind = NewPassword, recipient = bob ''Email'',
                             about = tk_username tokReset,
                             content = tk_username tokReset @ randomBytesHex ?e 8\<rparr>]
                      else Outbox store0)"
    by blast
  from u hex have "Users s' ''bob'' = Some (bob(''Password'' \<mapsto> S ''$bobabababababababab''))"
    by (simp add: tokReset_def genPassHash_def env0_def)
  moreover from t have "Tokens s' ''c4'' = None" by simp
  moreover from ob have "Outbox s' = []" by (simp add: env0_def store0_def)
  ultimately show ?thesis using h1 h2 h3 h4 r by blast
qed

subsection \<open>\<open>verifyUser\<close>: one answer to every failed login, and no secrets in the claims\<close>

text \<open>
  C6: \<open>verifyUser\<close> gives the same response, status 401 with the message
  \<open>invalid login credentials\<close>, when there is no user of that name and when the password
  does not match the stored hash. When the password matches, the call returns status 200,
  and whenever it returns status 200 the payloads of the access token and of the refresh
  token and the decoded claims returned as \<open>user\<close> have neither a \<open>Password\<close> nor a
  \<open>Liked\<close> property.
\<close>

theorem verifyUser_uniform_failure_and_stripped_claims:
  "(getUser e s username = None \<longrightarrow>
      verifyUser e s username password = (Returns (resp 401 ''invalid login credentials''), s)) \<and>
   (\<forall>usr. getUser e s username = Some usr \<and> compareHash e password (usr ''Password'') = Inr False \<longrightarrow>
      verifyUser e s username password = (Returns (resp 401 ''invalid login credentials''), s)) \<and>
   (\<forall>usr. getUser e s username = Some usr \<and> compareHash e password (usr ''Password'') = Inr True \<longrightarrow>
      (\<exists>r. verifyUser e s username password = (Returns r, s) \<and> status r = 200)) \<and>
   (\<forall>r s'. verifyUser e s username password = (Returns r, s') \<and> status r = 200 \<longrightarrow>
      (\<exists>a f p. accessToken r = Some a \<and> refreshToken r = Some f \<and> user r = Some p \<and>
         decodeJWT a ''Password'' = None \<and> decodeJWT a ''Liked'' = None \<and>
         decodeJWT f ''Password'' = None \<and> decodeJWT f ''Liked'' = None \<and>
         p ''Password'' = None \<and> p ''Liked'' = None))"
  by (auto simp: verifyUser_def Let_def getAccessJWT_def getRefreshJWT_def jwt_sign_def resp_def
        split: option.splits sum.splits if_splits)

text \<open>
  In the example world: nobody is called \<open>carol\<close>, \<open>password2\<close> is not the password of
  \<open>alice\<close>, and \<open>password1\<close> is.
\<close>

theorem verifyUser_uniform_failure_and_stripped_claims_witness:
  "getUser env0 store0 ''carol'' = None \<and>
   verifyUser env0 store0 ''carol'' ''password1'' =
     (Returns (resp 401 ''invalid login credentials''), store0) \<and>
   getUser env0 store0 ''alice'' = Some (alice(''Username'' \<mapsto> S ''alice'')) \<and>
   compareHash env0 ''password2'' ((alice(''Username'' \<mapsto> S ''alice'')) ''Password'') = Inr False \<and>
   verifyUser env0 store0 ''alice'' ''password2'' =
     (Returns (resp 401 ''invalid login credentials''), store0) \<and>
   compareHash env0 ''password1'' ((alice(''Username'' \<mapsto> S ''alice'')) ''Password'') = Inr True \<and>
   (\<exists>r a f p. verifyUser env0 store0 ''alice'' ''password1'' = (Returns r, store0) \<and>
      status r = 200 \<and> accessToken r = Some a \<and> refreshToken r = Some f \<and> user r = Some p \<and>
      decodeJWT a ''Password'' = None \<and> decodeJWT a ''Liked'' = None \<and>
      decodeJWT f ''Password'' = None \<and> decodeJWT f ''Liked'' = None \<and>
      p ''Password'' = None \<and> p ''Liked'' = None)"
proof -
  have g0: "getUser env0 store0 ''carol'' = None"
    by (simp add: getUser_def env0_def store0_def)
  have g1: "getUser env0 store0 ''alice'' = Some (alice(''Username'' \<mapsto> S ''alice''))"
    by (simp add: getUser_def env0_def store0_def)
  have c1: "compareHash env0 ''password2'' ((alice(''Username'' \<mapsto> S ''alice'')) ''Password'') = Inr False"
    by (simp add: compareHash_def env0_def alice_def)
  have c2: "compareHash env0 ''password1'' ((alice(''Username'' \<mapsto> S ''alice'')) ''Password'') = Inr True"
    by (simp add: compareHash_def env0_def alice_def)
  note th1 = verifyUser_uniform_failure_and_stripped_claims [of env0 store0 "''carol''" "''password1''"]
  note th2 = verifyUser_uniform_failure_and_stripped_claims [of env0 store0 "''alice''" "''password2''"]
  note th3 = verifyUser_uniform_failure_and_stripped_claims [of env0 store0 "''alice''" "''password1''"]
  from th1 g0 have r0: "verifyUser env0 store0 ''carol'' ''password1'' =
     (Returns (resp 401 ''invalid login credentials''), store0)" by blast
  from th2 g1 c1 have r1: "verifyUser env0 store0 ''alice'' ''password2'' =
     (Returns (resp 401 ''invalid login credentials''), store0)" by blast
  from th3 g1 c2 obtain r where r: "verifyUser env0 store0 ''alice'' ''password1'' = (Returns r, store0)"
    and st: "status r = 200" by blast
  with th3 obtain a f p where "accessToken r = Some a" "refreshToken r = Some f" "user r = Some p"
         "decodeJWT a ''Password'' = None" "decodeJWT a ''Liked'' = None"
         "decodeJWT f ''Password'' = None" "decodeJWT f ''Liked'' = None"
         "p ''Password'' = None" "p ''Liked'' = None" by blast
  with r st g0 g1 c1 c2 r0 r1 show ?thesis by blast
qed

subsection \<open>\<open>deleteUserAccount\<close>\<close>

lemma deleteUserAccount_wrong_password:
  "getUser e s username = Some usr \<Longrightarrow> compareHash e password (usr ''Password'') = Inr False \<Longrightarrow>
   deleteUserAccount e s username password = (Returns (resp 403 ''invalid password.''), s)"
  by (simp add: deleteUserAccount_def)

lemma deleteUserAccount_run:
  assumes "getUser e s username = Some usr"
    and "compareHash e password (usr ''Password'') = Inr True"
    and "usr ''ProfilePic'' = Some (S link)" and "profilePicId link = Some i"
    and "i \<noteq> ''pfp'' \<longrightarrow> s3_remove_ok e" and "deleteUserTokens_ok e"
    and "removeAllArticles_error e = None" and "\<not> deleteItem_throws e"
  shows "deleteUserAccount e s username password =
     (Returns (resp 200 ''account deleted succesfuly''),
      s\<lparr>Images := (if i \<noteq> ''pfp'' then (Images s)(i := None) else Images s),
        Tokens := (\<lambda>v. case Tokens s v of
                          None \<Rightarrow> None
                        | Some t \<Rightarrow> if tk_username t = username then None else Some t),
        Articles := (\<lambda>tbl. filter (\<lambda>a. Author a \<noteq> username) (Articles s tbl)),
        Users := (Users s)(username := None)\<rparr>)"
proof -
  from assms(1) obtain item where "Users s username = Some item"
    using getUser_SomeD by blast
  with assms show ?thesis
    by (simp add: deleteUserAccount_def removeImageFromS3_def deleteUserTokens_def
          removeAllArticlesByUser_def deleteUser_def)
qed

lemma deleteUserAccount_stops:
  assumes "getUser e s username = Some usr"
    and "compareHash e password (usr ''Password'') = Inr True"
    and "usr ''ProfilePic'' = Some (S link)" and "profilePicId link = Some i"
  shows "(i \<noteq> ''pfp'' \<and> \<not> s3_remove_ok e \<longrightarrow>
            deleteUserAccount e s username password = (Returns (resp 500 ''server error''), s)) \<and>
         ((i \<noteq> ''pfp'' \<longrightarrow> s3_remove_ok e) \<and> \<not> deleteUserTokens_ok e \<longrightarrow>
            deleteUserAccount e s username password =
              (Returns (resp 500 ''server error''),
               s\<lparr>Images := (if i \<noteq> ''pfp'' then (Images s)(i := None) else Images s)\<rparr>)) \<and>
         (\<forall>r. (i \<noteq> ''pfp'' \<longrightarrow> s3_remove_ok e) \<and> deleteUserTokens_ok e \<and>
              removeAllArticles_error e = Some r \<and> status r \<noteq> 200 \<longrightarrow>
            deleteUserAccount e s username password =
              (Returns r,
               s\<lparr>Images := (if i \<noteq> ''pfp'' then (Images s)(i := None) else Images s),
                 Tokens := (\<lambda>v. case Tokens s v of
                                   None \<Rightarrow> None
                                 | Some t \<Rightarrow> if tk_username t = username then None else Some t)\<rparr>)) \<and>
         ((i \<noteq> ''pfp'' \<longrightarrow> s3_remove_ok e) \<and> deleteUserTokens_ok e \<and>
              removeAllArticles_error e = None \<and> deleteItem_throws e \<longrightarrow>
            deleteUserAccount e s username password =
              (Returns (resp 500 ''server error''),
               s\<lparr>Images := (if i \<noteq> ''pfp'' then (Images s)(i := None) else Images s),
                 Tokens := (\<lambda>v. case Tokens s v of
                                   None \<Rightarrow> None
                                 | Some t \<Rightarrow> if tk_username t = username then None else Some t),
                 Articles := (\<lambda>tbl. filter (\<lambda>a. Author a \<noteq> username) (Articles s tbl))\<rparr>))"
  using assms
  by (simp add: deleteUserAccount_def removeImageFromS3_def deleteUserTokens_def
        removeAllArticlesByUser_def deleteUser_def)

lemma user_row_goes_last:
  assumes "deleteUserAccount e s username password = (r, s')" and "Users s' \<noteq> Users s"
  shows "r = Returns (resp 200 ''account deleted succesfuly'') \<and>
         deleteUserTokens_ok e \<and> \<not> deleteItem_throws e \<and>
         Tokens s' = (\<lambda>v. case Tokens s v of
                              None \<Rightarrow> None
                            | Some t \<Rightarrow> if tk_username t = username then None else Some t) \<and>
         (case removeAllArticles_error e of
            None \<Rightarrow> Articles s' = (\<lambda>tbl. filter (\<lambda>a. Author a \<noteq> username) (Articles s tbl))
          | Some ar \<Rightarrow> status ar = 200) \<and>
         (\<exists>item link i. Users s username = Some item \<and> item ''ProfilePic'' = Some (S link) \<and>
            profilePicId link = Some i \<and> (i \<noteq> ''pfp'' \<longrightarrow> s3_remove_ok e) \<and>
            Images s' = (if i \<noteq> ''pfp'' then (Images s)(i := None) else Images s))"
  using assms
  by (auto simp: deleteUserAccount_def getUser_def removeImageFromS3_def deleteUserTokens_def
        removeAllArticlesByUser_def deleteUser_def
      split: option.splits sum.splits if_splits jsval.splits bool.splits prod.splits)

text \<open>
  C2: for an existing user, \<open>deleteUserAccount\<close> with a password that does not match
  the stored hash returns 403 and the store it was given, so the user, the tokens, the
  articles and the stored image all remain. With a matching password, and when each step
  succeeds (the image removal where it is attempted, the removal of the tokens, the removal
  of the articles and the deletion of the item), it returns 200 and the store after the call
  is the store before it without the profile image (kept when its id is the default
  \<open>pfp\<close>), without the user's tokens, without the user's articles and without the user.
  The steps come in this order and the user goes last: a failing image removal ends the
  call with nothing changed; a failing token removal ends it with the image gone only; a
  failing article removal returns the response of that step with the image and the tokens
  gone; a failing deletion of the item ends it with image, tokens and articles gone; in all
  four the table \<open>Users\<close> is as before. Conversely, for every environment, a call that has
  changed \<open>Users\<close> returned 200 after the image step, the token step and the article step
  had succeeded.
\<close>

theorem deleteUserAccount_effects:
  assumes "getUser e s username = Some usr"
  shows "(compareHash e password (usr ''Password'') = Inr False \<longrightarrow>
            deleteUserAccount e s username password = (Returns (resp 403 ''invalid password.''), s)) \<and>
         (\<forall>link i. compareHash e password (usr ''Password'') = Inr True \<and>
              usr ''ProfilePic'' = Some (S link) \<and> profilePicId link = Some i \<and>
              (i \<noteq> ''pfp'' \<longrightarrow> s3_remove_ok e) \<and> deleteUserTokens_ok e \<and>
              removeAllArticles_error e = None \<and> \<not> deleteItem_throws e \<longrightarrow>
            (\<exists>s'. deleteUserAccount e s username password =
                     (Returns (resp 200 ''account deleted succesfuly''), s') \<and>
                   Images s' = (if i \<noteq> ''pfp'' then (Images s)(i := None) else Images s) \<and>
                   Tokens s' = (\<lambda>v. case Tokens s v of
                                        None \<Rightarrow> None
                                      | Some t \<Rightarrow> if tk_username t = username then None else Some t) \<and>
                   Articles s' = (\<lambda>tbl. filter (\<lambda>a. Author a \<noteq> username) (Articles s tbl)) \<and>
                   Users s' = (Users s)(username := None) \<and>
                   Outbox s' = Outbox s)) \<and>
         (\<forall>link i. compareHash e password (usr ''Password'') = Inr True \<and>
              usr ''ProfilePic'' = Some (S link) \<and> profilePicId link = Some i \<longrightarrow>
            (i \<noteq> ''pfp'' \<and> \<not> s3_remove_ok e \<longrightarrow>
               deleteUserAccount e s username password =
                 (Returns (resp 500 ''server error''), s)) \<and>
            ((i \<noteq> ''pfp'' \<longrightarrow> s3_remove_ok e) \<and> \<not> deleteUserTokens_ok e \<longrightarrow>
               deleteUserAccount e s username password =
                 (Returns (resp 500 ''server error''),
                  s\<lparr>Images := (if i \<noteq> ''pfp'' then (Images s)(i := None) else Images s)\<rparr>)) \<and>
            (\<forall>r. (i \<noteq> ''pfp'' \<longrightarrow> s3_remove_ok e) \<and> deleteUserTokens_ok e \<and>
                 removeAllArticles_error e = Some r \<and> status r \<noteq> 200 \<longrightarrow>
               deleteUserAccount e s username password =
                 (Returns r,
                  s\<lparr>Images := (if i \<noteq> ''pfp'' then (Images s)(i := None) else Images s),
                    Tokens := (\<lambda>v. case Tokens s v of
                                      None \<Rightarrow> None
                                    | Some t \<Rightarrow> if tk_username t = username then None else Some t)\<rparr>)) \<and>
            ((i \<noteq> ''pfp'' \<longrightarrow> s3_remove_ok e) \<and> deleteUserTokens_ok e \<and>
                 removeAllArticles_error e = None \<and> deleteItem_throws e \<longrightarrow>
               deleteUserAccount e s username password =
                 (Returns (resp 500 ''server error''),
                  s\<lparr>Images := (if i \<noteq> ''pfp'' then (Images s)(i := None) else Images s),
                    Tokens := (\<lambda>v. case Tokens s v of
                                      None \<Rightarrow> None
                                    | Some t \<Rightarrow> if tk_username t = username then None else Some t),
                    Articles := (\<lambda>tbl. filter (\<lambda>a. Author a \<noteq> username) (Articles s tbl))\<rparr>))) \<and>
         (\<forall>r s'. deleteUserAccount e s username password = (r, s') \<and> Users s' \<noteq> Users s \<longrightarrow>
            r = Returns (resp 200 ''account deleted succesfuly'') \<and>
            deleteUserTokens_ok e \<and> \<not> deleteItem_throws e \<and>
            Tokens s' = (\<lambda>v. case Tokens s v of
                                 None \<Rightarrow> None
                               | Some t \<Rightarrow> if tk_username t = username then None else Some t) \<and>
            (case removeAllArticles_error e of
               None \<Rightarrow> Articles s' = (\<lambda>tbl. filter (\<lambda>a. Author a \<noteq> username) (Articles s tbl))
             | Some ar \<Rightarrow> status ar = 200) \<and>
            (\<exists>item link i. Users s username = Some item \<and> item ''ProfilePic'' = Some (S link) \<and>
               profilePicId link = Some i \<and> (i \<noteq> ''pfp'' \<longrightarrow> s3_remove_ok e) \<and>
               Images s' = (if i \<noteq> ''pfp'' then (Images s)(i := None) else Images s)))"
proof -
  have first: "compareHash e password (usr ''Password'') = Inr False \<longrightarrow>
            deleteUserAccount e s username password = (Returns (resp 403 ''invalid password.''), s)"
    using assms by (simp add: deleteUserAccount_wrong_password)
  have second: "\<forall>link i. compareHash e password (usr ''Password'') = Inr True \<and>
              usr ''ProfilePic'' = Some (S link) \<and> profilePicId link = Some i \<and>
              (i \<noteq> ''pfp'' \<longrightarrow> s3_remove_ok e) \<and> deleteUserTokens_ok e \<and>
              removeAllArticles_error e = None \<and> \<not> deleteItem_throws e \<longrightarrow>
            (\<exists>s'. deleteUserAccount e s username password =
                     (Returns (resp 200 ''account deleted succesfuly''), s') \<and>
                   Images s' = (if i \<noteq> ''pfp'' then (Images s)(i := None) else Images s) \<and>
                   Tokens s' = (\<lambda>v. case Tokens s v of
                                        None \<Rightarrow> None
                                      | Some t \<Rightarrow> if tk_username t = username then None else Some t) \<and>
                   Articles s' = (\<lambda>tbl. filter (\<lambda>a. Author a \<noteq> username) (Articles s tbl)) \<and>
                   Users s' = (Users s)(username := None) \<and>
                   Outbox s' = Outbox s)"
  proof (intro allI impI)
    fix link i
    assume a: "compareHash e password (usr ''Password'') = Inr True \<and>
              usr ''ProfilePic'' = Some (S link) \<and> profilePicId link = Some i \<and>
              (i \<noteq> ''pfp'' \<longrightarrow> s3_remove_ok e) \<and> deleteUserTokens_ok e \<and>
              removeAllArticles_error e = None \<and> \<not> deleteItem_throws e"
    then have "deleteUserAccount e s username password =
       (Returns (resp 200 ''account deleted succesfuly''),
        s\<lparr>Images := (if i \<noteq> ''pfp'' then (Images s)(i := None) else Images s),
          Tokens := (\<lambda>v. case Tokens s v of
                            None \<Rightarrow> None
                          | Some t \<Rightarrow> if tk_username t = username then None else Some t),
          Articles := (\<lambda>tbl. filter (\<lambda>a. Author a \<noteq> username) (Articles s tbl)),
          Users := (Users s)(username := None)\<rparr>)"
      using assms by (intro deleteUserAccount_run [of e s username usr password link i]) simp_all
    then show "\<exists>s'. deleteUserAccount e s username password =
                     (Returns (resp 200 ''account deleted succesfuly''), s') \<and>
                   Images s' = (if i \<noteq> ''pfp'' then (Images s)(i := None) else Images s) \<and>
                   Tokens s' = (\<lambda>v. case Tokens s v of
                                        None \<Rightarrow> None
                                      | Some t \<Rightarrow> if tk_username t = username then None else Some t) \<and>
                   Articles s' = (\<lambda>tbl. filter (\<lambda>a. Author a \<noteq> username) (Articles s tbl)) \<and>
                   Users s' = (Users s)(username := None) \<and>
                   Outbox s' = Outbox s"
      by simp
  qed
  have third: "\<forall>link i. compareHash e password (usr ''Password'') = Inr True \<and>
              usr ''ProfilePic'' = Some (S link) \<and> profilePicId link = Some i \<longrightarrow>
            (i \<noteq> ''pfp'' \<and> \<not> s3_remove_ok e \<longrightarrow>
               deleteUserAccount e s username password =
                 (Returns (resp 500 ''server error''), s)) \<and>
            ((i \<noteq> ''pfp'' \<longrightarrow> s3_remove_ok e) \<and> \<not> deleteUserTokens_ok e \<longrightarrow>
               deleteUserAccount e s username password =
                 (Returns (resp 500 ''server error''),
                  s\<lparr>Images := (if i \<noteq> ''pfp'' then (Images s)(i := None) else Images s)\<rparr>)) \<and>
            (\<forall>r. (i \<noteq> ''pfp'' \<longrightarrow> s3_remove_ok e) \<and> deleteUserTokens_ok e \<and>
                 removeAllArticles_error e = Some r \<and> status r \<noteq> 200 \<longrightarrow>
               deleteUserAccount e s username password =
                 (Returns r,
                  s\<lparr>Images := (if i \<noteq> ''pfp'' then (Images s)(i := None) else Images s),
                    Tokens := (\<lambda>v. case Tokens s v of
                                      None \<Rightarrow> None
                                    | Some t \<Rightarrow> if tk_username t = username then None else Some t)\<rparr>)) \<and>
            ((i \<noteq> ''pfp'' \<longrightarrow> s3_remove_ok e) \<and> deleteUserTokens_ok e \<and>
                 removeAllArticles_error e = None \<and> deleteItem_throws e \<longrightarrow>
               deleteUserAccount e s username password =
                 (Returns (resp 500 ''server error''),
                  s\<lparr>Images := (if i \<noteq> ''pfp'' then (Images s)(i := None) else Images s),
                    Tokens := (\<lambda>v. case Tokens s v of
                                      None \<Rightarrow> None
                                    | Some t \<Rightarrow> if tk_username t = username then None else Some t),
                    Articles := (\<lambda>tbl. filter (\<lambda>a. Author a \<noteq> username) (Articles s tbl))\<rparr>))"
  proof (intro allI impI)
    fix link i
    assume "compareHash e password (usr ''Password'') = Inr True \<and>
              usr ''ProfilePic'' = Some (S link) \<and> profilePicId link = Some i"
    then show "(i \<noteq> ''pfp'' \<and> \<not> s3_remove_ok e \<longrightarrow>
               deleteUserAccount e s username password =
                 (Returns (resp 500 ''server error''), s)) \<and>
            ((i \<noteq> ''pfp'' \<longrightarrow> s3_remove_ok e) \<and> \<not> deleteUserTokens_ok e \<longrightarrow>
               deleteUserAccount e s username password =
                 (Returns (resp 500 ''server error''),
                  s\<lparr>Images := (if i \<noteq> ''pfp'' then (Images s)(i := None) else Images s)\<rparr>)) \<and>
            (\<forall>r. (i \<noteq> ''pfp'' \<longrightarrow> s3_remove_ok e) \<and> deleteUserTokens_ok e \<and>
                 removeAllArticles_error e = Some r \<and> status r \<noteq> 200 \<longrightarrow>
               deleteUserAccount e s username password =
                 (Returns r,
                  s\<lparr>Images := (if i \<noteq> ''pfp'' then (Images s)(i := None) else Images s),
                    Tokens := (\<lambda>v. case Tokens s v of
                                      None \<Rightarrow> None
                                    | Some t \<Rightarrow> if tk_username t = username then None else Some t)\<rparr>)) \<and>
            ((i \<noteq> ''pfp'' \<longrightarrow> s3_remove_ok e) \<and> deleteUserTokens_ok e \<and>
                 removeAllArticles_error e = None \<and> deleteItem_throws e \<longrightarrow>
               deleteUserAccount e s username password =
                 (Returns (resp 500 ''server error''),
                  s\<lparr>Images := (if i \<noteq> ''pfp'' then (Images s)(i := None) else Images s),
                    Tokens := (\<lambda>v. case Tokens s v of
                                      None \<Rightarrow> None
                                    | Some t \<Rightarrow> if tk_username t = username then None else Some t),
                    Articles := (\<lambda>tbl. filter (\<lambda>a. Author a \<noteq> username) (Articles s tbl))\<rparr>))"
      using assms by (intro deleteUserAccount_stops [of e s username usr password link i]) simp_all
  qed
  have fourth: "\<forall>r s'. deleteUserAccount e s username password = (r, s') \<and> Users s' \<noteq> Users s \<longrightarrow>
            r = Returns (resp 200 ''account deleted succesfuly'') \<and>
            deleteUserTokens_ok e \<and> \<not> deleteItem_throws e \<and>
            Tokens s' = (\<lambda>v. case Tokens s v of
                                 None \<Rightarrow> None
                               | Some t \<Rightarrow> if tk_username t = username then None else Some t) \<and>
            (case removeAllArticles_error e of
               None \<Rightarrow> Articles s' = (\<lambda>tbl. filter (\<lambda>a. Author a \<noteq> username) (Articles s tbl))
             | Some ar \<Rightarrow> status ar = 200) \<and>
            (\<exists>item link i. Users s username = Some item \<and> item ''ProfilePic'' = Some (S link) \<and>
               profilePicId link = Some i \<and> (i \<noteq> ''pfp'' \<longrightarrow> s3_remove_ok e) \<and>
               Images s' = (if i \<noteq> ''pfp'' then (Images s)(i := None) else Images s))"
  proof (intro allI impI)
    fix r s'
    assume "deleteUserAccount e s username password = (r, s') \<and> Users s' \<noteq> Users s"
    then have run: "deleteUserAccount e s username password = (r, s')"
      and ch: "Users s' \<noteq> Users s" by simp_all
    show "r = Returns (resp 200 ''account deleted succesfuly'') \<and>
            deleteUserTokens_ok e \<and> \<not> deleteItem_throws e \<and>
            Tokens s' = (\<lambda>v. case Tokens s v of
                                 None \<Rightarrow> None
                               | Some t \<Rightarrow> if tk_username t = username then None else Some t) \<and>
            (case removeAllArticles_error e of
               None \<Rightarrow> Articles s' = (\<lambda>tbl. filter (\<lambda>a. Author a \<noteq> username) (Articles s tbl))
             | Some ar \<Rightarrow> status ar = 200) \<and>
            (\<exists>item link i. Users s username = Some item \<and> item ''ProfilePic'' = Some (S link) \<and>
               profilePicId link = Some i \<and> (i \<noteq> ''pfp'' \<longrightarrow> s3_remove_ok e) \<and>
               Images s' = (if i \<noteq> ''pfp'' then (Images s)(i := None) else Images s))"
      using run ch by (rule user_row_goes_last)
  qed
  show ?thesis
    apply (rule conjI)
     apply (rule first)
    apply (rule conjI)
     apply (rule second)
    apply (rule conjI)
     apply (rule third)
    apply (rule fourth)
    done
qed

text \<open>
  In the example world a wrong password leaves everything of \<open>bob\<close> in place, the right
  one removes his image \<open>0a1b\<close>, his tokens \<open>c2\<close> and \<open>c4\<close>, his articles and his item, and
  leaves what belongs to \<open>alice\<close>. The account of \<open>alice\<close>, who has the default picture,
  is deleted even when the object store refuses every removal: none is attempted. When
  the removal of the articles answers 500, the call on \<open>bob\<close> returns that answer with his
  image and tokens gone and the table \<open>Users\<close> untouched.
\<close>

theorem deleteUserAccount_effects_witness:
  "getUser env0 store0 ''bob'' = Some (bob(''Username'' \<mapsto> S ''bob'')) \<and>
   compareHash env0 ''hunter23'' ((bob(''Username'' \<mapsto> S ''bob'')) ''Password'') = Inr False \<and>
   deleteUserAccount env0 store0 ''bob'' ''hunter23'' =
     (Returns (resp 403 ''invalid password.''), store0) \<and>
   compareHash env0 ''hunter22'' ((bob(''Username'' \<mapsto> S ''bob'')) ''Password'') = Inr True \<and>
   (bob(''Username'' \<mapsto> S ''bob'')) ''ProfilePic'' = Some (S ''https://s3/images/0a1b.png'') \<and>
   profilePicId ''https://s3/images/0a1b.png'' = Some ''0a1b'' \<and>
   (\<exists>s'. deleteUserAccount env0 store0 ''bob'' ''hunter22'' =
            (Returns (resp 200 ''account deleted succesfuly''), s') \<and>
      Images s' ''0a1b'' = None \<and> Tokens s' ''c2'' = None \<and> Tokens s' ''c4'' = None \<and>
      Tokens s' ''c1'' = Some tokVerify \<and>
      Articles s' ''ArticlesPublished'' = [art1] \<and> Articles s' ''ArticlesUnpublished'' = [] \<and>
      Users s' ''bob'' = None \<and> Users s' ''alice'' = Some alice) \<and>
   getUser (env0\<lparr>s3_remove_ok := False\<rparr>) store0 ''alice'' =
     Some (alice(''Username'' \<mapsto> S ''alice'')) \<and>
   compareHash (env0\<lparr>s3_remove_ok := False\<rparr>) ''password1''
     ((alice(''Username'' \<mapsto> S ''alice'')) ''Password'') = Inr True \<and>
   (alice(''Username'' \<mapsto> S ''alice'')) ''ProfilePic'' = Some (S ''https://s3/images/pfp.png'') \<and>
   profilePicId ''https://s3/images/pfp.png'' = Some ''pfp'' \<and>
   (\<exists>s'. deleteUserAccount (env0\<lparr>s3_remove_ok := False\<rparr>) store0 ''alice'' ''password1'' =
            (Returns (resp 200 ''account deleted succesfuly''), s') \<and>
      Images s' = Images store0 \<and> Users s' ''alice'' = None) \<and>
   removeAllArticles_error (env0\<lparr>removeAllArticles_error := Some (resp 500 ''articles'')\<rparr>) =
     Some (resp 500 ''articles'') \<and>
   status (resp 500 ''articles'') \<noteq> 200 \<and>
   (\<exists>s'. deleteUserAccount (env0\<lparr>removeAllArticles_error := Some (resp 500 ''articles'')\<rparr>)
            store0 ''bob'' ''hunter22'' = (Returns (resp 500 ''articles''), s') \<and>
      Users s' = Users store0 \<and> Articles s' = Articles store0 \<and>
      Images s' ''0a1b'' = None \<and> Tokens s' ''c2'' = None \<and> Tokens s' ''c4'' = None)"
proof -
  let ?b = "bob(''Username'' \<mapsto> S ''bob'')"
  have g: "getUser env0 store0 ''bob'' = Some ?b"
    by (simp add: getUser_def env0_def store0_def)
  have c1: "compareHash env0 ''hunter23'' (?b ''Password'') = Inr False"
    by (simp add: compareHash_def env0_def bob_def)
  have c2: "compareHash env0 ''hunter22'' (?b ''Password'') = Inr True"
    by (simp add: compareHash_def env0_def bob_def)
  have pp: "?b ''ProfilePic'' = Some (S ''https://s3/images/0a1b.png'')"
    by (simp add: bob_def)
  have pid: "profilePicId ''https://s3/images/0a1b.png'' = Some ''0a1b''"
    by code_simp
  have ok: "(''0a1b'' \<noteq> ''pfp'' \<longrightarrow> s3_remove_ok env0) \<and> deleteUserTokens_ok env0 \<and>
              removeAllArticles_error env0 = None \<and> \<not> deleteItem_throws env0"
    by (simp add: env0_def)
  note th1 = deleteUserAccount_effects [OF g, of "''hunter23''", THEN conjunct1]
  note th2 = deleteUserAccount_effects [OF g, of "''hunter22''", THEN conjunct2, THEN conjunct1]
  from th1 c1 have r1: "deleteUserAccount env0 store0 ''bob'' ''hunter23'' =
     (Returns (resp 403 ''invalid password.''), store0)" by blast
  from th2 c2 pp pid ok obtain s' where
    r2: "deleteUserAccount env0 store0 ''bob'' ''hunter22'' =
            (Returns (resp 200 ''account deleted succesfuly''), s')"
    and im: "Images s' = (if ''0a1b'' \<noteq> ''pfp'' then (Images store0)(''0a1b'' := None) else Images store0)"
    and tk: "Tokens s' = (\<lambda>v. case Tokens store0 v of
                                        None \<Rightarrow> None
                                      | Some t \<Rightarrow> if tk_username t = ''bob'' then None else Some t)"
    and ar: "Articles s' = (\<lambda>tbl. filter (\<lambda>a. Author a \<noteq> ''bob'') (Articles store0 tbl))"
    and us: "Users s' = (Users store0)(''bob'' := None)"
    by blast
  from im have "Images s' ''0a1b'' = None" by simp
  moreover from tk have "Tokens s' ''c2'' = None" "Tokens s' ''c4'' = None" "Tokens s' ''c1'' = Some tokVerify"
    by (simp_all add: store0_def tokResetOld_def tokReset_def tokVerify_def)
  moreover from ar have "Articles s' ''ArticlesPublished'' = [art1]" "Articles s' ''ArticlesUnpublished'' = []"
    by (simp_all add: store0_def art1_def art2_def art3_def)
  moreover from us have "Users s' ''bob'' = None" "Users s' ''alice'' = Some alice"
    by (simp_all add: store0_def)
  ultimately have bobs: "\<exists>s'. deleteUserAccount env0 store0 ''bob'' ''hunter22'' =
            (Returns (resp 200 ''account deleted succesfuly''), s') \<and>
      Images s' ''0a1b'' = None \<and> Tokens s' ''c2'' = None \<and> Tokens s' ''c4'' = None \<and>
      Tokens s' ''c1'' = Some tokVerify \<and>
      Articles s' ''ArticlesPublished'' = [art1] \<and> Articles s' ''ArticlesUnpublished'' = [] \<and>
      Users s' ''bob'' = None \<and> Users s' ''alice'' = Some alice"
    using r2 by blast
  let ?e = "env0\<lparr>s3_remove_ok := False\<rparr>"
  let ?a = "alice(''Username'' \<mapsto> S ''alice'')"
  have ga: "getUser ?e store0 ''alice'' = Some ?a"
    by (simp add: getUser_def env0_def store0_def)
  have ca: "compareHash ?e ''password1'' (?a ''Password'') = Inr True"
    by (simp add: compareHash_def env0_def alice_def)
  have ppa: "?a ''ProfilePic'' = Some (S ''https://s3/images/pfp.png'')"
    by (simp add: alice_def)
  have pida: "profilePicId ''https://s3/images/pfp.png'' = Some ''pfp''"
    by code_simp
  have oka: "(''pfp'' \<noteq> ''pfp'' \<longrightarrow> s3_remove_ok ?e) \<and> deleteUserTokens_ok ?e \<and>
              removeAllArticles_error ?e = None \<and> \<not> deleteItem_throws ?e"
    by (simp add: env0_def)
  from deleteUserAccount_effects [OF ga, of "''password1''", THEN conjunct2, THEN conjunct1]
    ca ppa pida oka obtain sa where
    ra: "deleteUserAccount ?e store0 ''alice'' ''password1'' =
            (Returns (resp 200 ''account deleted succesfuly''), sa)"
    and ima: "Images sa = (if ''pfp'' \<noteq> ''pfp'' then (Images store0)(''pfp'' := None)
                           else Images store0)"
    and usa: "Users sa = (Users store0)(''alice'' := None)"
    by blast
  from ima have "Images sa = Images store0" by simp
  moreover from usa have "Users sa ''alice'' = None" by simp
  ultimately have alices: "\<exists>s'. deleteUserAccount ?e store0 ''alice'' ''password1'' =
            (Returns (resp 200 ''account deleted succesfuly''), s') \<and>
      Images s' = Images store0 \<and> Users s' ''alice'' = None"
    using ra by blast
  let ?f = "env0\<lparr>removeAllArticles_error := Some (resp 500 ''articles'')\<rparr>"
  have gf: "getUser ?f store0 ''bob'' = Some ?b"
    by (simp add: getUser_def env0_def store0_def)
  have pre: "compareHash ?f ''hunter22'' (?b ''Password'') = Inr True \<and>
             ?b ''ProfilePic'' = Some (S ''https://s3/images/0a1b.png'') \<and>
             profilePicId ''https://s3/images/0a1b.png'' = Some ''0a1b''"
    using pp pid by (simp add: compareHash_def env0_def bob_def)
  have er: "removeAllArticles_error ?f = Some (resp 500 ''articles'')" by simp
  have ne: "status (resp 500 ''articles'') \<noteq> 200" by simp
  have stp: "(''0a1b'' \<noteq> ''pfp'' \<longrightarrow> s3_remove_ok ?f) \<and> deleteUserTokens_ok ?f \<and>
             removeAllArticles_error ?f = Some (resp 500 ''articles'') \<and>
             status (resp 500 ''articles'') \<noteq> 200"
    by (simp add: env0_def)
  note stop = deleteUserAccount_effects [OF gf, of "''hunter22''", THEN conjunct2, THEN conjunct2,
      THEN conjunct1, THEN spec, of "''https://s3/images/0a1b.png''", THEN spec, of "''0a1b''",
      THEN mp, OF pre, THEN conjunct2, THEN conjunct2, THEN conjunct1, THEN spec,
      of "resp 500 ''articles''", THEN mp, OF stp]
  let ?sf = "store0\<lparr>Images := (if ''0a1b'' \<noteq> ''pfp'' then (Images store0)(''0a1b'' := None)
                                 else Images store0),
                    Tokens := (\<lambda>v. case Tokens store0 v of
                                      None \<Rightarrow> None
                                    | Some t \<Rightarrow> if tk_username t = ''bob'' then None else Some t)\<rparr>"
  from stop have rf: "deleteUserAccount ?f store0 ''bob'' ''hunter22'' =
                        (Returns (resp 500 ''articles''), ?sf)" .
  have "Users ?sf = Users store0" "Articles ?sf = Articles store0" by simp_all
  moreover have "Images ?sf ''0a1b'' = None" by simp
  moreover have "Tokens ?sf ''c2'' = None" "Tokens ?sf ''c4'' = None"
    by (simp_all add: store0_def tokResetOld_def tokReset_def)
  ultimately have stops: "\<exists>s'. deleteUserAccount ?f store0 ''bob'' ''hunter22'' =
            (Returns (resp 500 ''articles''), s') \<and>
      Users s' = Users store0 \<and> Articles s' = Articles store0 \<and>
      Images s' ''0a1b'' = None \<and> Tokens s' ''c2'' = None \<and> Tokens s' ''c4'' = None"
    using rf by blast
  from g c1 c2 pp pid r1 bobs ga ca ppa pida alices er ne stops show ?thesis by blast
qed

subsection \<open>\<open>requestEmailChange\<close>\<close>

lemma requestEmailChange_run:
  assumes "Users s username = Some item" and "\<not> getItem_throws e"
    and "item ''LastEmailChange'' = Some (N t)" and "\<not> t + 3 * 60 * 60 > clock e 0"
    and "item ''Password'' = Some (S h)" and "bcrypt_compare e password h"
    and "\<not> updateItem_throws e 0"
  shows "requestEmailChange e s username password newEmail =
     (Returns \<lparr>status = 200,
               message = Some ''Verification email sent to new email address.'',
               accessToken = Some (getAccessJWT e (clock e 2)
                  (item(''Username'' \<mapsto> S username, ''LastPasswordChange'' \<mapsto> N (clock e 0)))),
               refreshToken = None, verificationToken = None,
               user = Some (decodeJWT (getAccessJWT e (clock e 2)
                  (item(''Username'' \<mapsto> S username, ''LastPasswordChange'' \<mapsto> N (clock e 0)))))\<rparr>,
      s\<lparr>Tokens := (Tokens s)(randomBytesHex e 24 \<mapsto>
            \<lparr>tk_username = username, tk_value = randomBytesHex e 24, tk_type = ''email_change'',
             tk_expiration = clock e 1 + 6 * 3600, tk_newEmail = Some newEmail\<rparr>),
        Outbox := (if email_ok e
                   then Outbox s @ [\<lparr>kind = EmailChangeVerification, recipient = Some (S newEmail),
                                     about = username, content = randomBytesHex e 24\<rparr>]
                   else Outbox s),
        Users := (Users s)(username \<mapsto> item(''LastEmailChange'' \<mapsto> N (clock e 0)))\<rparr>)"
  using assms
  by (simp add: requestEmailChange_def getUNIXTimestamp_def getUser_def stillCooling_def
        compareHash_def Let_def createToken_def sendEmail_def updateUser_def allowed)

text \<open>
  C5: for an existing user whose \<open>LastEmailChange\<close> is the number \<open>t\<close>. A call less
  than three hours after \<open>t\<close> is answered with 429 and changes nothing. A later call with
  the right password (and a database that takes the write) returns 200, stores an
  \<open>email_change\<close> token that carries the new address and expires six hours after the
  second clock reading, and sets the stored \<open>LastEmailChange\<close> to the current time. The
  access token it returns does not reflect that update: its claims still carry the old
  \<open>LastEmailChange\<close> \<open>t\<close>, which lies before the current time, and carry the current time
  as \<open>LastPasswordChange\<close> instead, a field the store did not change. The object is
  signed as \<open>getUser\<close> returned it, so the claims hold the password hash as well.
\<close>

theorem requestEmailChange_behaviour:
  assumes "Users s username = Some item" and "\<not> getItem_throws e"
    and "item ''LastEmailChange'' = Some (N t)"
  shows "(t + 3 * 60 * 60 > clock e 0 \<longrightarrow>
            requestEmailChange e s username password newEmail =
              (Returns (resp 429
                 ''you have requested an email change recently. Please try again later.''), s)) \<and>
         (\<forall>h. \<not> t + 3 * 60 * 60 > clock e 0 \<and> item ''Password'' = Some (S h) \<and>
              bcrypt_compare e password h \<and> \<not> updateItem_throws e 0 \<longrightarrow>
            (\<exists>a s'. requestEmailChange e s username password newEmail =
                       (Returns \<lparr>status = 200,
                          message = Some ''Verification email sent to new email address.'',
                          accessToken = Some a, refreshToken = None, verificationToken = None,
                          user = Some (decodeJWT a)\<rparr>, s') \<and>
                    Tokens s' = (Tokens s)(randomBytesHex e 24 \<mapsto>
                       \<lparr>tk_username = username, tk_value = randomBytesHex e 24,
                        tk_type = ''email_change'', tk_expiration = clock e 1 + 6 * 3600,
                        tk_newEmail = Some newEmail\<rparr>) \<and>
                    Users s' = (Users s)(username \<mapsto> item(''LastEmailChange'' \<mapsto> N (clock e 0))) \<and>
                    decodeJWT a ''LastEmailChange'' = Some (N t) \<and> t < clock e 0 \<and>
                    decodeJWT a ''LastPasswordChange'' = Some (N (clock e 0)) \<and>
                    decodeJWT a ''Password'' = Some (S h)))"
proof (intro conjI allI impI)
  assume "t + 3 * 60 * 60 > clock e 0"
  with assms show "requestEmailChange e s username password newEmail =
              (Returns (resp 429
                 ''you have requested an email change recently. Please try again later.''), s)"
    by (simp add: requestEmailChange_def getUNIXTimestamp_def getUser_def stillCooling_def)
next
  fix h
  assume a: "\<not> t + 3 * 60 * 60 > clock e 0 \<and> item ''Password'' = Some (S h) \<and>
              bcrypt_compare e password h \<and> \<not> updateItem_throws e 0"
  let ?a = "getAccessJWT e (clock e 2)
                  (item(''Username'' \<mapsto> S username, ''LastPasswordChange'' \<mapsto> N (clock e 0)))"
  from a assms have run: "requestEmailChange e s username password newEmail =
     (Returns \<lparr>status = 200,
               message = Some ''Verification email sent to new email address.'',
               accessToken = Some ?a,
               refreshToken = None, verificationToken = None,
               user = Some (decodeJWT ?a)\<rparr>,
      s\<lparr>Tokens := (Tokens s)(randomBytesHex e 24 \<mapsto>
            \<lparr>tk_username = username, tk_value = randomBytesHex e 24, tk_type = ''email_change'',
             tk_expiration = clock e 1 + 6 * 3600, tk_newEmail = Some newEmail\<rparr>),
        Outbox := (if email_ok e
                   then Outbox s @ [\<lparr>kind = EmailChangeVerification, recipient = Some (S newEmail),
                                     about = username, content = randomBytesHex e 24\<rparr>]
                   else Outbox s),
        Users := (Users s)(username \<mapsto> item(''LastEmailChange'' \<mapsto> N (clock e 0)))\<rparr>)"
    by (intro requestEmailChange_run [of s username item e t h password newEmail]) simp_all
  have "decodeJWT ?a ''LastEmailChange'' = Some (N t)"
    using assms(3) by (simp add: getAccessJWT_def jwt_sign_def)
  moreover have "decodeJWT ?a ''LastPasswordChange'' = Some (N (clock e 0))"
    by (simp add: getAccessJWT_def jwt_sign_def)
  moreover from a have "decodeJWT ?a ''Password'' = Some (S h)"
    by (simp add: getAccessJWT_def jwt_sign_def)
  moreover from a have "t < clock e 0" by simp
  ultimately show "\<exists>a s'. requestEmailChange e s username password newEmail =
                       (Returns \<lparr>status = 200,
                          message = Some ''Verification email sent to new email address.'',
                          accessToken = Some a, refreshToken = None, verificationToken = None,
                          user = Some (decodeJWT a)\<rparr>, s') \<and>
                    Tokens s' = (Tokens s)(randomBytesHex e 24 \<mapsto>
                       \<lparr>tk_username = username, tk_value = randomBytesHex e 24,
                        tk_type = ''email_change'', tk_expiration = clock e 1 + 6 * 3600,
                        tk_newEmail = Some newEmail\<rparr>) \<and>
                    Users s' = (Users s)(username \<mapsto> item(''LastEmailChange'' \<mapsto> N (clock e 0))) \<and>
                    decodeJWT a ''LastEmailChange'' = Some (N t) \<and> t < clock e 0 \<and>
                    decodeJWT a ''LastPasswordChange'' = Some (N (clock e 0)) \<and>
                    decodeJWT a ''Password'' = Some (S h)"
    using run by simp
qed

text \<open>
  In the example world \<open>alice\<close> asks at 1000000 with both timestamps at 0: the store gets
  \<open>LastEmailChange\<close> 1000000, the token's claims say \<open>LastEmailChange\<close> 0 and
  \<open>LastPasswordChange\<close> 1000000. A second request at the same time is answered with 429.
\<close>

theorem requestEmailChange_behaviour_witness:
  "Users store0 ''alice'' = Some alice \<and> alice ''LastEmailChange'' = Some (N 0) \<and>
   \<not> 0 + 3 * 60 * 60 > clock env0 0 \<and> alice ''Password'' = Some (S ''$password1'') \<and>
   bcrypt_compare env0 ''password1'' ''$password1'' \<and>
   (\<exists>a s'. requestEmailChange env0 store0 ''alice'' ''password1'' ''al@y.org'' =
        (Returns \<lparr>status = 200,
            message = Some ''Verification email sent to new email address.'',
            accessToken = Some a, refreshToken = None, verificationToken = None,
            user = Some (decodeJWT a)\<rparr>, s') \<and>
      Users s' ''alice'' = Some (alice(''LastEmailChange'' \<mapsto> N 1000000)) \<and>
      decodeJWT a ''LastEmailChange'' = Some (N 0) \<and>
      decodeJWT a ''LastPasswordChange'' = Some (N 1000000) \<and>
      alice ''LastPasswordChange'' = Some (N 0)) \<and>
   1000000 + 3 * 60 * 60 > clock env0 0 \<and>
   requestEmailChange env0
      (store0\<lparr>Users := (Users store0)(''alice'' \<mapsto> alice(''LastEmailChange'' \<mapsto> N 1000000))\<rparr>)
      ''alice'' ''password1'' ''al@y.org'' =
     (Returns (resp 429 ''you have requested an email change recently. Please try again later.''),
      store0\<lparr>Users := (Users store0)(''alice'' \<mapsto> alice(''LastEmailChange'' \<mapsto> N 1000000))\<rparr>)"
proof -
  have u: "Users store0 ''alice'' = Some alice" by (simp add: store0_def)
  have g: "\<not> getItem_throws env0" by (simp add: env0_def)
  have l: "alice ''LastEmailChange'' = Some (N 0)" by (simp add: alice_def)
  have lp: "alice ''LastPasswordChange'' = Some (N 0)" by (simp add: alice_def)
  have c: "\<not> 0 + 3 * 60 * 60 > clock env0 0" by (simp add: env0_def)
  have pw: "alice ''Password'' = Some (S ''$password1'')" by (simp add: alice_def)
  have bc: "bcrypt_compare env0 ''password1'' ''$password1''" by (simp add: env0_def)
  have up: "\<not> updateItem_throws env0 0" by (simp add: env0_def)
  have ck: "clock env0 0 = 1000000" by (simp add: env0_def)
  from requestEmailChange_behaviour [OF u g l, of "''password1''" "''al@y.org''"] c pw bc up
  obtain a s' where r: "requestEmailChange env0 store0 ''alice'' ''password1'' ''al@y.org'' =
        (Returns \<lparr>status = 200,
            message = Some ''Verification email sent to new email address.'',
            accessToken = Some a, refreshToken = None, verificationToken = None,
            user = Some (decodeJWT a)\<rparr>, s')"
    and us: "Users s' = (Users store0)(''alice'' \<mapsto> alice(''LastEmailChange'' \<mapsto> N (clock env0 0)))"
    and d1: "decodeJWT a ''LastEmailChange'' = Some (N 0)"
    and d2: "decodeJWT a ''LastPasswordChange'' = Some (N (clock env0 0))"
    by blast
  from us ck have us': "Users s' ''alice'' = Some (alice(''LastEmailChange'' \<mapsto> N 1000000))" by simp
  from d2 ck have d2': "decodeJWT a ''LastPasswordChange'' = Some (N 1000000)" by simp
  let ?s1 = "store0\<lparr>Users := (Users store0)(''alice'' \<mapsto> alice(''LastEmailChange'' \<mapsto> N 1000000))\<rparr>"
  have u1: "Users ?s1 ''alice'' = Some (alice(''LastEmailChange'' \<mapsto> N 1000000))" by simp
  have l1: "(alice(''LastEmailChange'' \<mapsto> N 1000000)) ''LastEmailChange'' = Some (N 1000000)" by simp
  have c1: "1000000 + 3 * 60 * 60 > clock env0 0" by (simp add: env0_def)
  from requestEmailChange_behaviour [OF u1 g l1, of "''password1''" "''al@y.org''"] c1
  have r1: "requestEmailChange env0 ?s1 ''alice'' ''password1'' ''al@y.org'' =
     (Returns (resp 429 ''you have requested an email change recently. Please try again later.''), ?s1)"
    by blast
  from u l c pw bc r us' d1 d2' lp c1 r1 show ?thesis by blast
qed

subsection \<open>\<open>changeProfilePic\<close>\<close>

lemma updateArticles_no_faults:
  "\<forall>i. \<not> articleUpdate_throws e tbl i \<Longrightarrow>
   updateArticles e s tbl items newLink =
     (True, s\<lparr>Articles := (Articles s)(tbl :=
               map (\<lambda>a. if ID a \<in> set (filter (\<lambda>i. i \<noteq> []) (map ID items)) then a\<lparr>AuthorProfilePic := newLink\<rparr> else a)
                   (Articles s tbl))\<rparr>)"
  by (simp add: updateArticles_def)

lemma repointArticles_no_faults:
  assumes "\<not> articleQuery_throws e ''ArticlesUnpublished''"
    and "\<not> articleQuery_throws e ''ArticlesPublished''"
    and "\<forall>tbl i. \<not> articleUpdate_throws e tbl i"
  shows "repointArticles e s username newLink =
    (True, s\<lparr>Articles := (Articles s)
          (''ArticlesUnpublished'' :=
             map (\<lambda>a. if ID a \<in> set (filter (\<lambda>i. i \<noteq> [])
                                        (map ID (filter (\<lambda>a. Author a = username)
                                                (Articles s ''ArticlesUnpublished''))))
                       then a\<lparr>AuthorProfilePic := newLink\<rparr> else a)
                 (Articles s ''ArticlesUnpublished''),
           ''ArticlesPublished'' :=
             map (\<lambda>a. if ID a \<in> set (filter (\<lambda>i. i \<noteq> [])
                                        (map ID (filter (\<lambda>a. Author a = username)
                                                (Articles s ''ArticlesPublished''))))
                       then a\<lparr>AuthorProfilePic := newLink\<rparr> else a)
                 (Articles s ''ArticlesPublished''))\<rparr>)"
  using assms
  by (simp add: repointArticles_def queryArticles_def updateArticles_no_faults)

lemma updateArticles_frame:
  "updateArticles e s tbl items l = (ok, s1) \<Longrightarrow> Users s1 = Users s \<and> Images s1 = Images s"
  by (auto simp: updateArticles_def Let_def)

lemma repointArticles_frame:
  "repointArticles e s username l = (ok, s1) \<Longrightarrow> Users s1 = Users s \<and> Images s1 = Images s"
  by (auto simp: repointArticles_def split: option.splits prod.splits dest!: updateArticles_frame)

lemma updateUser_Images: "updateUser b s n f v = (r, s1) \<Longrightarrow> Images s1 = Images s"
  by (auto simp: updateUser_def split: if_splits option.splits)

lemma updateUser_200:
  "updateUser b s n f v = (r, s1) \<Longrightarrow> status r = 200 \<Longrightarrow>
   \<exists>item x. Users s n = Some item \<and> v = Some x \<and> s1 = s\<lparr>Users := (Users s)(n \<mapsto> item(f \<mapsto> x))\<rparr>"
  by (auto simp: updateUser_def split: if_splits option.splits)

lemma updateUser_keeps_other_field:
  "updateUser b s n f v = (r, s1) \<Longrightarrow> Users s n = Some item \<Longrightarrow> g \<noteq> f \<Longrightarrow>
   \<exists>item1. Users s1 n = Some item1 \<and> item1 g = item g"
  by (auto simp: updateUser_def split: if_splits option.splits)

lemma changeProfilePic_success:
  assumes "Users s username = Some item" and "\<not> getItem_throws e"
    and "checkProfilePictureCooldown (getUNIXTimestamp e 1) (item ''ProfilePicChange'') = Some True"
    and "\<not> updateItem_throws e 0" and "item ''ProfilePic'' = Some (S link)"
    and "s3_save_ok e"
    and "\<not> articleQuery_throws e ''ArticlesUnpublished''"
    and "\<not> articleQuery_throws e ''ArticlesPublished''"
    and "\<forall>tbl i. \<not> articleUpdate_throws e tbl i"
    and "\<not> updateItem_throws e 1"
  shows "\<exists>r s'. changeProfilePic e s username file = (Returns r, s') \<and> status r = 200 \<and>
     Users s' = (Users s)(username \<mapsto> item(''ProfilePicChange'' \<mapsto> N (getUNIXTimestamp e 0),
                                            ''ProfilePic'' \<mapsto> S (newPicLink e (uuidv4 e)))) \<and>
     Articles s' =
       (if truthy (item ''Admin'') \<or> truthy (item ''CanPost'')
        then (Articles s)
          (''ArticlesUnpublished'' :=
             map (\<lambda>a. if ID a \<in> set (filter (\<lambda>i. i \<noteq> [])
                                        (map ID (filter (\<lambda>a. Author a = username)
                                                (Articles s ''ArticlesUnpublished''))))
                       then a\<lparr>AuthorProfilePic := newPicLink e (uuidv4 e)\<rparr> else a)
                 (Articles s ''ArticlesUnpublished''),
           ''ArticlesPublished'' :=
             map (\<lambda>a. if ID a \<in> set (filter (\<lambda>i. i \<noteq> [])
                                        (map ID (filter (\<lambda>a. Author a = username)
                                                (Articles s ''ArticlesPublished''))))
                       then a\<lparr>AuthorProfilePic := newPicLink e (uuidv4 e)\<rparr> else a)
                 (Articles s ''ArticlesPublished''))
        else Articles s)"
proof (cases "truthy (item ''Admin'') \<or> truthy (item ''CanPost'')")
  case True
  with assms show ?thesis
    by (simp add: changeProfilePic_def getUser_def updateUser_def allowed Let_def saveImage_def
        removeImageFromS3_def repointArticles_no_faults
        split: option.splits)
next
  case False
  with assms show ?thesis
    by (simp add: changeProfilePic_def getUser_def updateUser_def allowed Let_def saveImage_def
        removeImageFromS3_def split: option.splits)
qed

lemma stamp_before_images:
  assumes run: "changeProfilePic e s username file = (r, s')" and ch: "Images s' \<noteq> Images s"
  shows "\<exists>it. Users s' username = Some it \<and>
               it ''ProfilePicChange'' = Some (N (getUNIXTimestamp e 0))"
proof (cases "getUser e s username")
  case None
  with run ch show ?thesis by (simp add: changeProfilePic_def)
next
  case (Some usr)
  note usr = this
  show ?thesis
  proof (cases "checkProfilePictureCooldown (getUNIXTimestamp e 1) (usr ''ProfilePicChange'')
                  = Some True")
    case False
    with run ch usr show ?thesis
      by (auto simp: changeProfilePic_def Let_def split: option.splits bool.splits)
  next
    case True
    note cool = this
    obtain res s1 where u: "updateUser (updateItem_throws e 0) s username ''ProfilePicChange''
                              (Some (N (getUNIXTimestamp e 0))) = (res, s1)"
      by fastforce
    show ?thesis
    proof (cases "status res = 200")
      case False
      with run usr cool u have "s' = s1" by (simp add: changeProfilePic_def Let_def)
      moreover from u have "Images s1 = Images s" by (rule updateUser_Images)
      ultimately show ?thesis using ch by simp
    next
      case True
      note ok = this
      from updateUser_200 [OF u True] obtain item where
        item: "Users s username = Some item"
        and s1: "s1 = s\<lparr>Users := (Users s)(username \<mapsto>
                        item(''ProfilePicChange'' \<mapsto> N (getUNIXTimestamp e 0)))\<rparr>"
        by auto
      show ?thesis
      proof (cases "\<exists>link. usr ''ProfilePic'' = Some (S link)")
        case False
        with run usr cool u ok have "s' = s1"
          by (auto simp: changeProfilePic_def Let_def split: option.splits jsval.splits)
        with s1 ch show ?thesis by simp
      next
        case True
        then obtain link where link: "usr ''ProfilePic'' = Some (S link)" by blast
        define s2 where "s2 = (case oldImageId link of
                                 Some i \<Rightarrow> snd (removeImageFromS3 e s1 i) | None \<Rightarrow> s1)"
        have u2: "Users s2 = Users s1"
          by (simp add: s2_def removeImageFromS3_def split: option.splits)
        obtain b s3 where sv: "saveImage e s2 (uuidv4 e) file 350 350 = (b, s3)" by fastforce
        then have u3: "Users s3 = Users s2" by (auto simp: saveImage_def split: if_splits)
        have stamped: "Users s3 username =
                         Some (item(''ProfilePicChange'' \<mapsto> N (getUNIXTimestamp e 0)))"
          using u3 u2 s1 by simp
        show ?thesis
        proof (cases b)
          case False
          with run usr cool u ok link sv have "s' = s3"
            by (simp add: changeProfilePic_def Let_def s2_def)
          with stamped show ?thesis by simp
        next
          case True
          note saved = this
          let ?usr2 = "usr(''ProfilePicChange'' \<mapsto> N (getUNIXTimestamp e 0),
                           ''ProfilePic'' \<mapsto> S (newPicLink e (uuidv4 e)))"
          obtain okc s5 where c: "(if truthy (?usr2 ''Admin'') \<or> truthy (?usr2 ''CanPost'')
                    then repointArticles e s3 username (newPicLink e (uuidv4 e))
                    else (True, s3)) = (okc, s5)" by fastforce
          then have u5: "Users s5 = Users s3"
            by (auto split: if_splits dest: repointArticles_frame)
          show ?thesis
          proof (cases okc)
            case False
            with run usr cool u ok link sv saved c have "s' = s5"
              by (simp add: changeProfilePic_def Let_def s2_def)
            with stamped u5 show ?thesis by simp
          next
            case True
            obtain res6 s6 where f: "updateUser (updateItem_throws e 1) s5 username ''ProfilePic''
                                        (?usr2 ''ProfilePic'') = (res6, s6)" by fastforce
            with run usr cool u ok link sv saved c True have "s' = s6"
              by (simp add: changeProfilePic_def Let_def s2_def)
            moreover from updateUser_keeps_other_field [OF f, of _ "''ProfilePicChange''"] stamped u5
            have "\<exists>it. Users s6 username = Some it \<and>
                    it ''ProfilePicChange'' = Some (N (getUNIXTimestamp e 0))"
              by auto
            ultimately show ?thesis by simp
          qed
        qed
      qed
    qed
  qed
qed

lemma changeProfilePic_save_fails:
  assumes "Users s username = Some item" and "\<not> getItem_throws e"
    and "checkProfilePictureCooldown (getUNIXTimestamp e 1) (item ''ProfilePicChange'') = Some True"
    and "\<not> updateItem_throws e 0" and "item ''ProfilePic'' = Some (S link)"
    and "\<not> s3_save_ok e"
  shows "changeProfilePic e s username file =
     (Returns (resp 500 ''server error''),
      s\<lparr>Users := (Users s)(username \<mapsto> item(''ProfilePicChange'' \<mapsto> N (getUNIXTimestamp e 0))),
        Images := (case oldImageId link of
                     None \<Rightarrow> Images s
                   | Some i \<Rightarrow> if s3_remove_ok e then (Images s)(i := None) else Images s)\<rparr>)"
  using assms
  by (simp add: changeProfilePic_def getUser_def updateUser_def allowed Let_def saveImage_def
        removeImageFromS3_def split: option.splits)

text \<open>
  C8: for an existing user. When \<open>ProfilePicChange\<close> is a number and fewer than
  7 * 24 * 60 * 60 seconds lie between it and the clock reading of the check,
  \<open>changeProfilePic\<close> returns 403 and changes nothing. When that many seconds or more have
  passed, or when \<open>ProfilePicChange\<close> is the string \<open>'null'\<close> (whatever the clock reads),
  and the database, the object store and the article tables do not fail, the call returns
  status 200 and the user has the new stamp and the new picture link.
\<close>

theorem profile_picture_cooldown:
  assumes "Users s username = Some item" and "\<not> getItem_throws e"
  shows "(\<forall>t. item ''ProfilePicChange'' = Some (N t) \<and>
              getUNIXTimestamp e 1 - t < 7 * 24 * 60 * 60 \<longrightarrow>
            changeProfilePic e s username file =
              (Returns (resp 403 ''the user profile picture was changed in the last week''), s)) \<and>
         (\<forall>link. ((\<exists>t. item ''ProfilePicChange'' = Some (N t) \<and>
                        \<not> getUNIXTimestamp e 1 - t < 7 * 24 * 60 * 60) \<or>
                   item ''ProfilePicChange'' = Some (S ''null'')) \<and>
              item ''ProfilePic'' = Some (S link) \<and> \<not> updateItem_throws e 0 \<and> s3_save_ok e \<and>
              \<not> articleQuery_throws e ''ArticlesUnpublished'' \<and>
              \<not> articleQuery_throws e ''ArticlesPublished'' \<and>
              (\<forall>tbl i. \<not> articleUpdate_throws e tbl i) \<and> \<not> updateItem_throws e 1 \<longrightarrow>
            (\<exists>r s'. changeProfilePic e s username file = (Returns r, s') \<and> status r = 200 \<and>
               Users s' = (Users s)(username \<mapsto>
                  item(''ProfilePicChange'' \<mapsto> N (getUNIXTimestamp e 0),
                       ''ProfilePic'' \<mapsto> S (newPicLink e (uuidv4 e))))))"
proof (intro conjI allI impI)
  fix t
  assume "item ''ProfilePicChange'' = Some (N t) \<and> getUNIXTimestamp e 1 - t < 7 * 24 * 60 * 60"
  with assms show "changeProfilePic e s username file =
              (Returns (resp 403 ''the user profile picture was changed in the last week''), s)"
    by (simp add: changeProfilePic_def getUser_def checkProfilePictureCooldown_def
          profilePicCooldown_def)
next
  fix link
  assume a: "((\<exists>t. item ''ProfilePicChange'' = Some (N t) \<and>
                        \<not> getUNIXTimestamp e 1 - t < 7 * 24 * 60 * 60) \<or>
                   item ''ProfilePicChange'' = Some (S ''null'')) \<and>
              item ''ProfilePic'' = Some (S link) \<and> \<not> updateItem_throws e 0 \<and> s3_save_ok e \<and>
              \<not> articleQuery_throws e ''ArticlesUnpublished'' \<and>
              \<not> articleQuery_throws e ''ArticlesPublished'' \<and>
              (\<forall>tbl i. \<not> articleUpdate_throws e tbl i) \<and> \<not> updateItem_throws e 1"
  then have "checkProfilePictureCooldown (getUNIXTimestamp e 1) (item ''ProfilePicChange'') = Some True"
    by (auto simp: checkProfilePictureCooldown_def profilePicCooldown_def)
  with assms a
  have "\<exists>r s'. changeProfilePic e s username file = (Returns r, s') \<and> status r = 200 \<and>
     Users s' = (Users s)(username \<mapsto> item(''ProfilePicChange'' \<mapsto> N (getUNIXTimestamp e 0),
                                            ''ProfilePic'' \<mapsto> S (newPicLink e (uuidv4 e)))) \<and>
     Articles s' =
       (if truthy (item ''Admin'') \<or> truthy (item ''CanPost'')
        then (Articles s)
          (''ArticlesUnpublished'' :=
             map (\<lambda>a. if ID a \<in> set (filter (\<lambda>i. i \<noteq> [])
                                        (map ID (filter (\<lambda>a. Author a = username)
                                                (Articles s ''ArticlesUnpublished''))))
                       then a\<lparr>AuthorProfilePic := newPicLink e (uuidv4 e)\<rparr> else a)
                 (Articles s ''ArticlesUnpublished''),
           ''ArticlesPublished'' :=
             map (\<lambda>a. if ID a \<in> set (filter (\<lambda>i. i \<noteq> [])
                                        (map ID (filter (\<lambda>a. Author a = username)
                                                (Articles s ''ArticlesPublished''))))
                       then a\<lparr>AuthorProfilePic := newPicLink e (uuidv4 e)\<rparr> else a)
                 (Articles s ''ArticlesPublished''))
        else Articles s)"
    by (intro changeProfilePic_success [of s username item e link "file"]) simp_all
  then show "\<exists>r s'. changeProfilePic e s username file = (Returns r, s') \<and> status r = 200 \<and>
               Users s' = (Users s)(username \<mapsto>
                  item(''ProfilePicChange'' \<mapsto> N (getUNIXTimestamp e 0),
                       ''ProfilePic'' \<mapsto> S (newPicLink e (uuidv4 e))))"
    by blast
qed

text \<open>
  In the example world \<open>bob\<close> changed his picture at 900000: at 1000000 he is refused, at
  1504800 (exactly seven days later) he succeeds; \<open>alice\<close>, who never changed hers,
  succeeds at once.
\<close>

theorem profile_picture_cooldown_witness:
  "Users store0 ''bob'' = Some bob \<and> bob ''ProfilePicChange'' = Some (N 900000) \<and>
   getUNIXTimestamp env0 1 - 900000 < 7 * 24 * 60 * 60 \<and>
   changeProfilePic env0 store0 ''bob'' ''f'' =
     (Returns (resp 403 ''the user profile picture was changed in the last week''), store0) \<and>
   \<not> getUNIXTimestamp (env0\<lparr>clock := \<lambda>k. 1504800\<rparr>) 1 - 900000 < 7 * 24 * 60 * 60 \<and>
   (\<exists>r s'. changeProfilePic (env0\<lparr>clock := \<lambda>k. 1504800\<rparr>) store0 ''bob'' ''f'' = (Returns r, s') \<and>
      status r = 200 \<and>
      Users s' ''bob'' = Some (bob(''ProfilePicChange'' \<mapsto> N 1504800,
                                   ''ProfilePic'' \<mapsto> S ''https://s3/images/1b9d6bcd.png''))) \<and>
   Users store0 ''alice'' = Some alice \<and> alice ''ProfilePicChange'' = Some (S ''null'') \<and>
   (\<exists>r s'. changeProfilePic env0 store0 ''alice'' ''f'' = (Returns r, s') \<and> status r = 200 \<and>
      Users s' ''alice'' = Some (alice(''ProfilePicChange'' \<mapsto> N 1000000,
                                       ''ProfilePic'' \<mapsto> S ''https://s3/images/1b9d6bcd.png'')))"
proof -
  let ?late = "env0\<lparr>clock := \<lambda>k. 1504800\<rparr>"
  have ub: "Users store0 ''bob'' = Some bob" by (simp add: store0_def)
  have ua: "Users store0 ''alice'' = Some alice" by (simp add: store0_def)
  have g: "\<not> getItem_throws env0" by (simp add: env0_def)
  have gl: "\<not> getItem_throws ?late" by (simp add: env0_def)
  have pb: "bob ''ProfilePicChange'' = Some (N 900000)" by (simp add: bob_def)
  have pa: "alice ''ProfilePicChange'' = Some (S ''null'')" by (simp add: alice_def)
  have early: "getUNIXTimestamp env0 1 - 900000 < 7 * 24 * 60 * 60"
    by (simp add: getUNIXTimestamp_def env0_def)
  have late: "\<not> getUNIXTimestamp ?late 1 - 900000 < 7 * 24 * 60 * 60"
    by (simp add: getUNIXTimestamp_def)
  have lb: "bob ''ProfilePic'' = Some (S ''https://s3/images/0a1b.png'')" by (simp add: bob_def)
  have la: "alice ''ProfilePic'' = Some (S ''https://s3/images/pfp.png'')" by (simp add: alice_def)
  have ok: "\<not> updateItem_throws env0 0 \<and> s3_save_ok env0 \<and>
            \<not> articleQuery_throws env0 ''ArticlesUnpublished'' \<and>
            \<not> articleQuery_throws env0 ''ArticlesPublished'' \<and>
            (\<forall>tbl i. \<not> articleUpdate_throws env0 tbl i) \<and> \<not> updateItem_throws env0 1"
    by (simp add: env0_def)
  have okl: "\<not> updateItem_throws ?late 0 \<and> s3_save_ok ?late \<and>
            \<not> articleQuery_throws ?late ''ArticlesUnpublished'' \<and>
            \<not> articleQuery_throws ?late ''ArticlesPublished'' \<and>
            (\<forall>tbl i. \<not> articleUpdate_throws ?late tbl i) \<and> \<not> updateItem_throws ?late 1"
    by (simp add: env0_def)
  have nl: "newPicLink env0 (uuidv4 env0) = ''https://s3/images/1b9d6bcd.png''"
    by (simp add: newPicLink_def env0_def)
  have nll: "newPicLink ?late (uuidv4 ?late) = ''https://s3/images/1b9d6bcd.png''"
    by (simp add: newPicLink_def env0_def)
  have t0: "getUNIXTimestamp env0 0 = 1000000" by (simp add: getUNIXTimestamp_def env0_def)
  have t0l: "getUNIXTimestamp ?late 0 = 1504800" by (simp add: getUNIXTimestamp_def)
  from profile_picture_cooldown [OF ub g, of "''f''"] pb early
  have r1: "changeProfilePic env0 store0 ''bob'' ''f'' =
     (Returns (resp 403 ''the user profile picture was changed in the last week''), store0)"
    by blast
  from profile_picture_cooldown [OF ub gl, of "''f''"] pb late lb okl
  obtain r2 s2 where "changeProfilePic ?late store0 ''bob'' ''f'' = (Returns r2, s2)"
    and "status r2 = 200"
    and "Users s2 = (Users store0)(''bob'' \<mapsto>
           bob(''ProfilePicChange'' \<mapsto> N (getUNIXTimestamp ?late 0),
               ''ProfilePic'' \<mapsto> S (newPicLink ?late (uuidv4 ?late))))"
    by blast
  with nll t0l have r2: "\<exists>r s'. changeProfilePic ?late store0 ''bob'' ''f'' = (Returns r, s') \<and>
      status r = 200 \<and>
      Users s' ''bob'' = Some (bob(''ProfilePicChange'' \<mapsto> N 1504800,
                                   ''ProfilePic'' \<mapsto> S ''https://s3/images/1b9d6bcd.png''))"
    by simp
  from profile_picture_cooldown [OF ua g, of "''f''"] pa la ok
  obtain r3 s3 where "changeProfilePic env0 store0 ''alice'' ''f'' = (Returns r3, s3)"
    and "status r3 = 200"
    and "Users s3 = (Users store0)(''alice'' \<mapsto>
           alice(''ProfilePicChange'' \<mapsto> N (getUNIXTimestamp env0 0),
                 ''ProfilePic'' \<mapsto> S (newPicLink env0 (uuidv4 env0))))"
    by blast
  with nl t0 have r3: "\<exists>r s'. changeProfilePic env0 store0 ''alice'' ''f'' = (Returns r, s') \<and>
      status r = 200 \<and>
      Users s' ''alice'' = Some (alice(''ProfilePicChange'' \<mapsto> N 1000000,
                                       ''ProfilePic'' \<mapsto> S ''https://s3/images/1b9d6bcd.png''))"
    by simp
  from ub pb early r1 late r2 ua pa r3 show ?thesis by blast
qed

text \<open>
  C9: the stamp comes first. Whatever \<open>changeProfilePic\<close> returns, a run that has changed
  the object store has left \<open>ProfilePicChange\<close> of the user at the time of the call.
  And when the cooldown is over, the stamp is written and storing the new image fails, the
  call returns 500 \<open>server error\<close>; the only change to the user is the new stamp, so the
  picture link is the old one, while the old image may already have been removed.
\<close>

theorem stamp_survives_failed_save:
  "(\<forall>r s'. changeProfilePic e s username file = (r, s') \<and> Images s' \<noteq> Images s \<longrightarrow>
      (\<exists>it. Users s' username = Some it \<and>
             it ''ProfilePicChange'' = Some (N (getUNIXTimestamp e 0)))) \<and>
   (\<forall>item link. Users s username = Some item \<and> \<not> getItem_throws e \<and>
        checkProfilePictureCooldown (getUNIXTimestamp e 1) (item ''ProfilePicChange'') = Some True \<and>
        \<not> updateItem_throws e 0 \<and> item ''ProfilePic'' = Some (S link) \<and> \<not> s3_save_ok e \<longrightarrow>
      (\<exists>s'. changeProfilePic e s username file = (Returns (resp 500 ''server error''), s') \<and>
         Users s' = (Users s)(username \<mapsto>
            item(''ProfilePicChange'' \<mapsto> N (getUNIXTimestamp e 0))) \<and>
         Images s' = (case oldImageId link of
                        None \<Rightarrow> Images s
                      | Some i \<Rightarrow> if s3_remove_ok e then (Images s)(i := None) else Images s)))"
proof (intro conjI allI impI)
  fix r s'
  assume "changeProfilePic e s username file = (r, s') \<and> Images s' \<noteq> Images s"
  then show "\<exists>it. Users s' username = Some it \<and>
             it ''ProfilePicChange'' = Some (N (getUNIXTimestamp e 0))"
    using stamp_before_images by blast
next
  fix item link
  assume a: "Users s username = Some item \<and> \<not> getItem_throws e \<and>
        checkProfilePictureCooldown (getUNIXTimestamp e 1) (item ''ProfilePicChange'') = Some True \<and>
        \<not> updateItem_throws e 0 \<and> item ''ProfilePic'' = Some (S link) \<and> \<not> s3_save_ok e"
  then have "changeProfilePic e s username file =
     (Returns (resp 500 ''server error''),
      s\<lparr>Users := (Users s)(username \<mapsto> item(''ProfilePicChange'' \<mapsto> N (getUNIXTimestamp e 0))),
        Images := (case oldImageId link of
                     None \<Rightarrow> Images s
                   | Some i \<Rightarrow> if s3_remove_ok e then (Images s)(i := None) else Images s)\<rparr>)"
    by (intro changeProfilePic_save_fails) simp_all
  then show "\<exists>s'. changeProfilePic e s username file = (Returns (resp 500 ''server error''), s') \<and>
         Users s' = (Users s)(username \<mapsto>
            item(''ProfilePicChange'' \<mapsto> N (getUNIXTimestamp e 0))) \<and>
         Images s' = (case oldImageId link of
                        None \<Rightarrow> Images s
                      | Some i \<Rightarrow> if s3_remove_ok e then (Images s)(i := None) else Images s)"
    by simp
qed

text \<open>
  In the example world with a failing \<open>saveImage\<close> at time 2000000, \<open>bob\<close> gets the
  answer 500, the stamp 2000000 and keeps his link; his old image is gone from the store.
\<close>

theorem stamp_survives_failed_save_witness:
  "Users store0 ''bob'' = Some bob \<and>
   checkProfilePictureCooldown
     (getUNIXTimestamp (env0\<lparr>clock := \<lambda>k. 2000000, s3_save_ok := False\<rparr>) 1)
     (bob ''ProfilePicChange'') = Some True \<and>
   bob ''ProfilePic'' = Some (S ''https://s3/images/0a1b.png'') \<and>
   \<not> s3_save_ok (env0\<lparr>clock := \<lambda>k. 2000000, s3_save_ok := False\<rparr>) \<and>
   (\<exists>s'. changeProfilePic (env0\<lparr>clock := \<lambda>k. 2000000, s3_save_ok := False\<rparr>) store0 ''bob'' ''f'' =
            (Returns (resp 500 ''server error''), s') \<and>
      Users s' ''bob'' = Some (bob(''ProfilePicChange'' \<mapsto> N 2000000)) \<and>
      (bob(''ProfilePicChange'' \<mapsto> N 2000000)) ''ProfilePic'' = bob ''ProfilePic'' \<and>
      Images s' \<noteq> Images store0 \<and>
      (\<exists>it. Users s' ''bob'' = Some it \<and> it ''ProfilePicChange'' = Some (N 2000000)))"
proof -
  let ?e = "env0\<lparr>clock := \<lambda>k. 2000000, s3_save_ok := False\<rparr>"
  have ub: "Users store0 ''bob'' = Some bob" by (simp add: store0_def)
  have g: "\<not> getItem_throws ?e" by (simp add: env0_def)
  have cool: "checkProfilePictureCooldown (getUNIXTimestamp ?e 1) (bob ''ProfilePicChange'') = Some True"
    by (simp add: checkProfilePictureCooldown_def getUNIXTimestamp_def bob_def profilePicCooldown_def)
  have up: "\<not> updateItem_throws ?e 0" by (simp add: env0_def)
  have lb: "bob ''ProfilePic'' = Some (S ''https://s3/images/0a1b.png'')" by (simp add: bob_def)
  have ns: "\<not> s3_save_ok ?e" by simp
  have rm: "s3_remove_ok ?e" by (simp add: env0_def)
  have old: "oldImageId ''https://s3/images/0a1b.png'' = Some ''0a1b''" by code_simp
  have t0: "getUNIXTimestamp ?e 0 = 2000000" by (simp add: getUNIXTimestamp_def)
  note th = stamp_survives_failed_save [of ?e store0 "''bob''" "''f''"]
  from th ub g cool up lb ns obtain s' where
    r: "changeProfilePic ?e store0 ''bob'' ''f'' = (Returns (resp 500 ''server error''), s')"
    and us: "Users s' = (Users store0)(''bob'' \<mapsto>
               bob(''ProfilePicChange'' \<mapsto> N (getUNIXTimestamp ?e 0)))"
    and im: "Images s' = (case oldImageId ''https://s3/images/0a1b.png'' of
                        None \<Rightarrow> Images store0
                      | Some i \<Rightarrow> if s3_remove_ok ?e then (Images store0)(i := None)
                                  else Images store0)"
    by blast
  from us t0 have us': "Users s' ''bob'' = Some (bob(''ProfilePicChange'' \<mapsto> N 2000000))" by simp
  from im old rm have "Images s' ''0a1b'' = None" by simp
  moreover have "Images store0 ''0a1b'' \<noteq> None" by (simp add: store0_def)
  ultimately have ne: "Images s' \<noteq> Images store0" by metis
  from th r ne t0 have st: "\<exists>it. Users s' ''bob'' = Some it \<and> it ''ProfilePicChange'' = Some (N 2000000)"
    by metis
  have same: "(bob(''ProfilePicChange'' \<mapsto> N 2000000)) ''ProfilePic'' = bob ''ProfilePic''" by simp
  from ub cool lb ns r us' same ne st show ?thesis by blast
qed

text \<open>
  C4: which articles \<open>changeProfilePic\<close> re-points. On a successful run the rows of the
  user in both article tables get the new link exactly when \<open>Admin\<close> or \<open>CanPost\<close> is
  truthy as a JavaScript value. The flags are the strings \<open>'true'\<close> and \<open>'false'\<close>, and
  both strings are truthy: the rows of a user for whom \<open>checkCanPost\<close> is false are
  re-pointed as well.
\<close>

theorem changeProfilePic_repoints_on_truthy_flags:
  assumes "Users s username = Some item" and "\<not> getItem_throws e"
    and "checkProfilePictureCooldown (getUNIXTimestamp e 1) (item ''ProfilePicChange'') = Some True"
    and "\<not> updateItem_throws e 0" and "item ''ProfilePic'' = Some (S link)"
    and "s3_save_ok e"
    and "\<not> articleQuery_throws e ''ArticlesUnpublished''"
    and "\<not> articleQuery_throws e ''ArticlesPublished''"
    and "\<forall>tbl i. \<not> articleUpdate_throws e tbl i"
    and "\<not> updateItem_throws e 1"
  shows "\<exists>r s'. changeProfilePic e s username file = (Returns r, s') \<and> status r = 200 \<and>
     Articles s' =
       (if truthy (item ''Admin'') \<or> truthy (item ''CanPost'')
        then (Articles s)
          (''ArticlesUnpublished'' :=
             map (\<lambda>a. if ID a \<in> set (filter (\<lambda>i. i \<noteq> [])
                                        (map ID (filter (\<lambda>a. Author a = username)
                                                (Articles s ''ArticlesUnpublished''))))
                       then a\<lparr>AuthorProfilePic := newPicLink e (uuidv4 e)\<rparr> else a)
                 (Articles s ''ArticlesUnpublished''),
           ''ArticlesPublished'' :=
             map (\<lambda>a. if ID a \<in> set (filter (\<lambda>i. i \<noteq> [])
                                        (map ID (filter (\<lambda>a. Author a = username)
                                                (Articles s ''ArticlesPublished''))))
                       then a\<lparr>AuthorProfilePic := newPicLink e (uuidv4 e)\<rparr> else a)
                 (Articles s ''ArticlesPublished''))
        else Articles s)"
  using changeProfilePic_success [OF assms, of "file"] by blast

text \<open>
  In the example world \<open>alice\<close> has \<open>Admin\<close> and \<open>CanPost\<close> \<open>'false'\<close>, so
  \<open>checkCanPost\<close> is false for her, and her published article \<open>a1\<close> gets the new link.
\<close>

theorem changeProfilePic_repoints_on_truthy_flags_witness:
  "Users store0 ''alice'' = Some alice \<and>
   alice ''Admin'' = Some (S ''false'') \<and> alice ''CanPost'' = Some (S ''false'') \<and>
   \<not> checkCanPost (alice(''Username'' \<mapsto> S ''alice'')) \<and>
   Articles store0 ''ArticlesPublished'' = [art1, art2] \<and> Author art1 = ''alice'' \<and>
   (\<exists>r s'. changeProfilePic env0 store0 ''alice'' ''f'' = (Returns r, s') \<and> status r = 200 \<and>
      Articles s' ''ArticlesPublished'' =
        [art1\<lparr>AuthorProfilePic := ''https://s3/images/1b9d6bcd.png''\<rparr>, art2])"
proof -
  have ua: "Users store0 ''alice'' = Some alice" by (simp add: store0_def)
  have g: "\<not> getItem_throws env0" by (simp add: env0_def)
  have ad: "alice ''Admin'' = Some (S ''false'')" by (simp add: alice_def)
  have cp: "alice ''CanPost'' = Some (S ''false'')" by (simp add: alice_def)
  have ncp: "\<not> checkCanPost (alice(''Username'' \<mapsto> S ''alice''))"
    by (simp add: checkCanPost_def alice_def)
  have cool: "checkProfilePictureCooldown (getUNIXTimestamp env0 1) (alice ''ProfilePicChange'') = Some True"
    by (simp add: checkProfilePictureCooldown_def alice_def)
  have u0: "\<not> updateItem_throws env0 0" by (simp add: env0_def)
  have la: "alice ''ProfilePic'' = Some (S ''https://s3/images/pfp.png'')" by (simp add: alice_def)
  have sv: "s3_save_ok env0" by (simp add: env0_def)
  have q1: "\<not> articleQuery_throws env0 ''ArticlesUnpublished''" by (simp add: env0_def)
  have q2: "\<not> articleQuery_throws env0 ''ArticlesPublished''" by (simp add: env0_def)
  have au: "\<forall>tbl i. \<not> articleUpdate_throws env0 tbl i" by (simp add: env0_def)
  have u1: "\<not> updateItem_throws env0 1" by (simp add: env0_def)
  have nl: "newPicLink env0 (uuidv4 env0) = ''https://s3/images/1b9d6bcd.png''"
    by (simp add: newPicLink_def env0_def)
  have pubs: "Articles store0 ''ArticlesPublished'' = [art1, art2]" by (simp add: store0_def)
  have a1: "Author art1 = ''alice''" by (simp add: art1_def)
  from changeProfilePic_repoints_on_truthy_flags [OF ua g cool u0 la sv q1 q2 au u1, of "''f''"]
  obtain r s' where r: "changeProfilePic env0 store0 ''alice'' ''f'' = (Returns r, s')"
    and st: "status r = 200"
    and ar: "Articles s' =
       (if truthy (alice ''Admin'') \<or> truthy (alice ''CanPost'')
        then (Articles store0)
          (''ArticlesUnpublished'' :=
             map (\<lambda>a. if ID a \<in> set (filter (\<lambda>i. i \<noteq> [])
                                        (map ID (filter (\<lambda>a. Author a = ''alice'')
                                                (Articles store0 ''ArticlesUnpublished''))))
                       then a\<lparr>AuthorProfilePic := newPicLink env0 (uuidv4 env0)\<rparr> else a)
                 (Articles store0 ''ArticlesUnpublished''),
           ''ArticlesPublished'' :=
             map (\<lambda>a. if ID a \<in> set (filter (\<lambda>i. i \<noteq> [])
                                        (map ID (filter (\<lambda>a. Author a = ''alice'')
                                                (Articles store0 ''ArticlesPublished''))))
                       then a\<lparr>AuthorProfilePic := newPicLink env0 (uuidv4 env0)\<rparr> else a)
                 (Articles store0 ''ArticlesPublished''))
        else Articles store0)"
    by blast
  from ar ad nl pubs have "Articles s' ''ArticlesPublished'' =
        [art1\<lparr>AuthorProfilePic := ''https://s3/images/1b9d6bcd.png''\<rparr>, art2]"
    by (simp add: art1_def art2_def)
  with ua ad cp ncp pubs a1 r st show ?thesis by blast
qed

end
